theory Spec2Isabelle
  imports Complex_Main "HOL-Library.Stream"
begin

section \<open>Values, exceptions and the object store\<close>

text \<open>
  The module \<^verbatim>\<open>reg_oracle_class.py\<close> defines three predictor classes, each with a
  constructor and a method \<^verbatim>\<open>predict(self, X)\<close>. The embedding keeps Python's objects in
  a store: a reference is an index into the list of allocated objects, \<^verbatim>\<open>self\<close> and
  \<^verbatim>\<open>X\<close> are references, and \<^verbatim>\<open>predict\<close> returns a reference to the list it builds.
\<close>

text \<open>
  A number is a double: a finite value, an infinity or a NaN. The finite values are given
  by the reals they denote; every double (and every 64-bit integer) is such a value, and
  what is proved for all values of the type holds for the doubles among them. Comparison
  is that of IEEE 754: a NaN is neither below nor above anything.
\<close>

datatype float64 = Finite real | PosInf | NegInf | NaN

fun float_less :: "float64 \<Rightarrow> float64 \<Rightarrow> bool" where
  "float_less (Finite a) (Finite b) = (a < b)"
| "float_less (Finite a) PosInf = True"
| "float_less NegInf (Finite b) = True"
| "float_less NegInf PosInf = True"
| "float_less _ _ = False"

abbreviation floats :: "real list \<Rightarrow> float64 list" where
  "floats xs \<equiv> map Finite xs"

type_synonym row = "float64 list"

datatype error = AttributeError | IndexError | ValueError | BdbQuit | Exception string

text \<open>
  A regression model (the objects \<^verbatim>\<open>b0\<close> and \<^verbatim>\<open>b1\<close>, supplied by the caller) is
  anything with a method \<^verbatim>\<open>predict\<close> from one feature row to a predicted cost; the call may
  raise.
\<close>

type_synonym regmodel = "row \<Rightarrow> error + float64"

type_synonym ref = nat

datatype pyobj =
    RegOracle regmodel regmodel
  | RandomLinearThresh "float64 list"
  | LinearThresh "float64 list"
  | DataFrame "row list"
  | PyList "int list"

text \<open>
  The objects are: an instance of \<^verbatim>\<open>RegOracle\<close> with its attributes \<^verbatim>\<open>b0\<close> and
  \<^verbatim>\<open>b1\<close>; an instance of \<^verbatim>\<open>RandomLinearThresh\<close> or of \<^verbatim>\<open>LinearThresh\<close> with its
  attribute \<^verbatim>\<open>coefficient\<close>; a pandas data frame, given by its rows in order; and a Python
  list of integers (the list \<^verbatim>\<open>y\<close> of labels).
\<close>

datatype pdb_cmd = Continue | Quit

datatype model_id = B0 | B1

text \<open>
  Besides the store, the world holds what the module reaches outside itself: the state of
  numpy's global random generator, as the stream of the values that its successive draws
  \<^verbatim>\<open>random_sample()\<close> will return; the commands that the operator will type at the
  debugger's prompt; and the log of the calls made to the regression models, in order.
\<close>

record world =
  heap :: "pyobj list"
  rng :: "real stream"
  stdin :: "pdb_cmd list"
  calls :: "(model_id \<times> row) list"

definition deref :: "world \<Rightarrow> ref \<Rightarrow> pyobj option" where
  "deref w r = (if r < length (heap w) then Some (heap w ! r) else None)"

definition new :: "pyobj \<Rightarrow> world \<Rightarrow> ref \<times> world" where
  "new v w = (length (heap w), w\<lparr>heap := heap w @ [v]\<rparr>)"

subsection \<open>Attribute access and library calls\<close>

text \<open>\<^verbatim>\<open>self.coefficient\<close>: both linear classes have the attribute, no other object has.\<close>

definition get_coefficient :: "world \<Rightarrow> ref \<Rightarrow> error + float64 list" where
  "get_coefficient w self =
     (case deref w self of
        Some (RandomLinearThresh c) \<Rightarrow> Inr c
      | Some (LinearThresh c) \<Rightarrow> Inr c
      | _ \<Rightarrow> Inl AttributeError)"

text \<open>\<^verbatim>\<open>self.b0\<close> and \<^verbatim>\<open>self.b1\<close>.\<close>

definition get_b0 :: "world \<Rightarrow> ref \<Rightarrow> error + regmodel" where
  "get_b0 w self =
     (case deref w self of
        Some (RegOracle b0 b1) \<Rightarrow> Inr b0
      | _ \<Rightarrow> Inl AttributeError)"

definition get_b1 :: "world \<Rightarrow> ref \<Rightarrow> error + regmodel" where
  "get_b1 w self =
     (case deref w self of
        Some (RegOracle b0 b1) \<Rightarrow> Inr b1
      | _ \<Rightarrow> Inl AttributeError)"

text \<open>\<^verbatim>\<open>X.shape[0]\<close>: the number of rows of a data frame.\<close>

definition shape0 :: "world \<Rightarrow> ref \<Rightarrow> error + nat" where
  "shape0 w X =
     (case deref w X of
        Some (DataFrame rows) \<Rightarrow> Inr (length rows)
      | _ \<Rightarrow> Inl AttributeError)"

text \<open>\<^verbatim>\<open>X.iloc[i, :]\<close>: the row at position \<open>i\<close>.\<close>

definition iloc :: "world \<Rightarrow> ref \<Rightarrow> nat \<Rightarrow> error + row" where
  "iloc w X i =
     (case deref w X of
        Some (DataFrame rows) \<Rightarrow> if i < length rows then Inr (rows ! i) else Inl IndexError
      | _ \<Rightarrow> Inl AttributeError)"

text \<open>\<^verbatim>\<open>y.append(v)\<close> updates the list object in place.\<close>

definition list_append :: "ref \<Rightarrow> int \<Rightarrow> world \<Rightarrow> (error + unit) \<times> world" where
  "list_append y v w =
     (case deref w y of
        Some (PyList xs) \<Rightarrow> (Inr (), w\<lparr>heap := (heap w)[y := PyList (xs @ [v])]\<rparr>)
      | _ \<Rightarrow> (Inl AttributeError, w))"

text \<open>
  \<^verbatim>\<open>np.dot(beta, x_i)\<close> of two one-dimensional sequences raises \<^verbatim>\<open>ValueError\<close> (shapes
  not aligned) when their lengths differ. Otherwise it returns the number that numpy's
  arithmetic computes for the sum of the products: a double, rounded, possibly infinite or
  NaN (or a wrapped 64-bit integer when both sequences hold integers). That arithmetic
  belongs to numpy and is not modelled: the function \<open>dot\<close> that gives the number is a
  parameter of \<^verbatim>\<open>np.dot\<close> and of everything that calls it.
\<close>

type_synonym dot_product = "float64 list \<Rightarrow> float64 list \<Rightarrow> float64"

definition np_dot :: "dot_product \<Rightarrow> float64 list \<Rightarrow> row \<Rightarrow> error + float64" where
  "np_dot dot beta x = (if length beta = length x then Inr (dot beta x) else Inl ValueError)"

text \<open>\<^verbatim>\<open>range(n)\<close> for a Python integer: empty when \<open>n \<le> 0\<close>.\<close>

definition py_range :: "int \<Rightarrow> nat list" where
  "py_range n = [0..<nat n]"

text \<open>
  \<^verbatim>\<open>np.random.uniform(low, high)\<close> belongs to numpy. Its documented contract: the result is
  \<^verbatim>\<open>low + (high - low) * random_sample()\<close>, where \<^verbatim>\<open>random_sample()\<close> draws from the
  half-open interval \<open>[0, 1)\<close>; so the result lies in \<open>[low, high)\<close>, \<open>low\<close> included.
  The draw advances the generator. (For the bounds \<open>-1\<close> and \<open>1\<close> and a draw that is a
  multiple of \<open>1 / 2 ^ 53\<close>, as the draws of \<^verbatim>\<open>random_sample()\<close> are, the result is a double and
  no rounding takes place.)
\<close>

definition np_random_uniform :: "real \<Rightarrow> real \<Rightarrow> world \<Rightarrow> float64 \<times> world" where
  "np_random_uniform low high w =
     (Finite (low + (high - low) * shd (rng w)), w\<lparr>rng := stl (rng w)\<rparr>)"

text \<open>
  \<^verbatim>\<open>pdb.set_trace()\<close> stops the program at the debugger's prompt and waits for the
  operator. Of the debugger's commands the model has the two that end the session:
  \<^verbatim>\<open>continue\<close> resumes the program, \<^verbatim>\<open>quit\<close> (as does the end of the input) raises
  \<^verbatim>\<open>BdbQuit\<close> in the program.
\<close>

definition pdb_set_trace :: "world \<Rightarrow> (error + unit) \<times> world" where
  "pdb_set_trace w =
     (case stdin w of
        [] \<Rightarrow> (Inl BdbQuit, w)
      | Continue # cs \<Rightarrow> (Inr (), w\<lparr>stdin := cs\<rparr>)
      | Quit # cs \<Rightarrow> (Inl BdbQuit, w\<lparr>stdin := cs\<rparr>))"

text \<open>
  \<^verbatim>\<open>reg.predict(x_i)\<close>: the row, reshaped to a matrix of one row, is handed to the model;
  the call is logged.
\<close>

definition call_model ::
  "model_id \<Rightarrow> regmodel \<Rightarrow> row \<Rightarrow> world \<Rightarrow> (error + float64) \<times> world" where
  "call_model m reg x w = (reg x, w\<lparr>calls := calls w @ [(m, x)]\<rparr>)"

section \<open>The three predictors\<close>

subsection \<open>RegOracle\<close>

definition RegOracle_init :: "regmodel \<Rightarrow> regmodel \<Rightarrow> world \<Rightarrow> ref \<times> world" where
  "RegOracle_init b0 b1 w = new (RegOracle b0 b1) w"

text \<open>The body of the loop \<^verbatim>\<open>for i in range(n)\<close>, run over the remaining indices.\<close>

fun RegOracle_loop ::
  "regmodel \<Rightarrow> regmodel \<Rightarrow> ref \<Rightarrow> ref \<Rightarrow> nat list \<Rightarrow> world \<Rightarrow> (error + unit) \<times> world" where
  "RegOracle_loop reg0 reg1 X y [] w = (Inr (), w)"
| "RegOracle_loop reg0 reg1 X y (i # rest) w =
     (case iloc w X i of
        Inl e \<Rightarrow> (Inl e, w)
      | Inr x_i \<Rightarrow>
          (case call_model B0 reg0 x_i w of
             (Inl e, w1) \<Rightarrow> (Inl e, w1)
           | (Inr c_0, w1) \<Rightarrow>
               (case call_model B1 reg1 x_i w1 of
                  (Inl e, w2) \<Rightarrow> (Inl e, w2)
                | (Inr c_1, w2) \<Rightarrow>
                    (case list_append y (of_bool (float_less c_1 c_0)) w2 of
                       (Inl e, w3) \<Rightarrow> (Inl e, w3)
                     | (Inr u, w3) \<Rightarrow> RegOracle_loop reg0 reg1 X y rest w3))))"

definition RegOracle_predict :: "ref \<Rightarrow> ref \<Rightarrow> world \<Rightarrow> (error + ref) \<times> world" where
  "RegOracle_predict self X w =
     (case get_b0 w self of
        Inl e \<Rightarrow> (Inl e, w)
      | Inr reg0 \<Rightarrow>
          (case get_b1 w self of
             Inl e \<Rightarrow> (Inl e, w)
           | Inr reg1 \<Rightarrow>
               (case shape0 w X of
                  Inl e \<Rightarrow> (Inl e, w)
                | Inr n \<Rightarrow>
                    (case new (PyList []) w of
                       (y, w1) \<Rightarrow>
                         (case pdb_set_trace w1 of
                            (Inl e, w2) \<Rightarrow> (Inl e, w2)
                          | (Inr u, w2) \<Rightarrow>
                              (case RegOracle_loop reg0 reg1 X y (py_range (int n)) w2 of
                                 (Inl e, w3) \<Rightarrow> (Inl e, w3)
                               | (Inr u', w3) \<Rightarrow> (Inr y, w3)))))))"

text \<open>
  The same method with the breakpoint removed, as section 9 of the specification asks of a
  reimplementation.
\<close>

definition RegOracle_predict_without_breakpoint ::
  "ref \<Rightarrow> ref \<Rightarrow> world \<Rightarrow> (error + ref) \<times> world" where
  "RegOracle_predict_without_breakpoint self X w =
     (case get_b0 w self of
        Inl e \<Rightarrow> (Inl e, w)
      | Inr reg0 \<Rightarrow>
          (case get_b1 w self of
             Inl e \<Rightarrow> (Inl e, w)
           | Inr reg1 \<Rightarrow>
               (case shape0 w X of
                  Inl e \<Rightarrow> (Inl e, w)
                | Inr n \<Rightarrow>
                    (case new (PyList []) w of
                       (y, w1) \<Rightarrow>
                         (case RegOracle_loop reg0 reg1 X y (py_range (int n)) w1 of
                            (Inl e, w3) \<Rightarrow> (Inl e, w3)
                          | (Inr u', w3) \<Rightarrow> (Inr y, w3))))))"

subsection \<open>RandomLinearThresh\<close>

text \<open>
  The list comprehension \<^verbatim>\<open>[np.random.uniform(-1, 1) for _ in range(d)]\<close>: one draw for
  each index, in order.
\<close>

fun uniform_list :: "nat list \<Rightarrow> world \<Rightarrow> float64 list \<times> world" where
  "uniform_list [] w = ([], w)"
| "uniform_list (i # rest) w =
     (case np_random_uniform (- 1) 1 w of
        (v, w1) \<Rightarrow> (case uniform_list rest w1 of (vs, w2) \<Rightarrow> (v # vs, w2)))"

definition RandomLinearThresh_init :: "int \<Rightarrow> world \<Rightarrow> ref \<times> world" where
  "RandomLinearThresh_init d w =
     (case uniform_list (py_range d) w of
        (c, w1) \<Rightarrow> new (RandomLinearThresh c) w1)"

fun RandomLinearThresh_loop ::
  "dot_product \<Rightarrow> float64 list \<Rightarrow> ref \<Rightarrow> ref \<Rightarrow> nat list \<Rightarrow> world \<Rightarrow>
     (error + unit) \<times> world" where
  "RandomLinearThresh_loop dot beta X y [] w = (Inr (), w)"
| "RandomLinearThresh_loop dot beta X y (i # rest) w =
     (case iloc w X i of
        Inl e \<Rightarrow> (Inl e, w)
      | Inr x_i \<Rightarrow>
          (case np_dot dot beta x_i of
             Inl e \<Rightarrow> (Inl e, w)
           | Inr c_1 \<Rightarrow>
               (case list_append y (of_bool (float_less c_1 (Finite 0))) w of
                  (Inl e, w1) \<Rightarrow> (Inl e, w1)
                | (Inr u, w1) \<Rightarrow> RandomLinearThresh_loop dot beta X y rest w1)))"

definition RandomLinearThresh_predict ::
  "dot_product \<Rightarrow> ref \<Rightarrow> ref \<Rightarrow> world \<Rightarrow> (error + ref) \<times> world" where
  "RandomLinearThresh_predict dot self X w =
     (case get_coefficient w self of
        Inl e \<Rightarrow> (Inl e, w)
      | Inr beta \<Rightarrow>
          (case shape0 w X of
             Inl e \<Rightarrow> (Inl e, w)
           | Inr n \<Rightarrow>
               (case new (PyList []) w of
                  (y, w1) \<Rightarrow>
                    (case RandomLinearThresh_loop dot beta X y (py_range (int n)) w1 of
                       (Inl e, w2) \<Rightarrow> (Inl e, w2)
                     | (Inr u, w2) \<Rightarrow> (Inr y, w2)))))"

subsection \<open>LinearThresh\<close>

definition LinearThresh_init :: "float64 list \<Rightarrow> world \<Rightarrow> ref \<times> world" where
  "LinearThresh_init d w = new (LinearThresh d) w"

fun LinearThresh_loop ::
  "dot_product \<Rightarrow> float64 list \<Rightarrow> ref \<Rightarrow> ref \<Rightarrow> nat list \<Rightarrow> world \<Rightarrow>
     (error + unit) \<times> world" where
  "LinearThresh_loop dot beta X y [] w = (Inr (), w)"
| "LinearThresh_loop dot beta X y (i # rest) w =
     (case iloc w X i of
        Inl e \<Rightarrow> (Inl e, w)
      | Inr x_i \<Rightarrow>
          (case np_dot dot beta x_i of
             Inl e \<Rightarrow> (Inl e, w)
           | Inr c_1 \<Rightarrow>
               (case list_append y (of_bool (float_less c_1 (Finite 0))) w of
                  (Inl e, w1) \<Rightarrow> (Inl e, w1)
                | (Inr u, w1) \<Rightarrow> LinearThresh_loop dot beta X y rest w1)))"

definition LinearThresh_predict ::
  "dot_product \<Rightarrow> ref \<Rightarrow> ref \<Rightarrow> world \<Rightarrow> (error + ref) \<times> world" where
  "LinearThresh_predict dot self X w =
     (case get_coefficient w self of
        Inl e \<Rightarrow> (Inl e, w)
      | Inr beta \<Rightarrow>
          (case shape0 w X of
             Inl e \<Rightarrow> (Inl e, w)
           | Inr n \<Rightarrow>
               (case new (PyList []) w of
                  (y, w1) \<Rightarrow>
                    (case LinearThresh_loop dot beta X y (py_range (int n)) w1 of
                       (Inl e, w2) \<Rightarrow> (Inl e, w2)
                     | (Inr u, w2) \<Rightarrow> (Inr y, w2)))))"

section \<open>What the loops compute\<close>

text \<open>
  Reference functions for the proofs: the labels that a loop appends before its first
  error, and that error if there is one. For \<^verbatim>\<open>RegOracle\<close> the calls made to the two
  models are listed too.
\<close>

definition threshold :: "dot_product \<Rightarrow> float64 list \<Rightarrow> row \<Rightarrow> error + int" where
  "threshold dot beta x =
     (case np_dot dot beta x of
        Inl e \<Rightarrow> Inl e
      | Inr c \<Rightarrow> Inr (of_bool (float_less c (Finite 0))))"

fun labels_until_error :: "(row \<Rightarrow> error + int) \<Rightarrow> row list \<Rightarrow> int list \<times> error option" where
  "labels_until_error f [] = ([], None)"
| "labels_until_error f (x # xs) =
     (case f x of
        Inl e \<Rightarrow> ([], Some e)
      | Inr v \<Rightarrow> (case labels_until_error f xs of (vs, r) \<Rightarrow> (v # vs, r)))"

fun costs_until_error ::
  "regmodel \<Rightarrow> regmodel \<Rightarrow> row list \<Rightarrow> int list \<times> (model_id \<times> row) list \<times> error option" where
  "costs_until_error reg0 reg1 [] = ([], [], None)"
| "costs_until_error reg0 reg1 (x # xs) =
     (case reg0 x of
        Inl e \<Rightarrow> ([], [(B0, x)], Some e)
      | Inr c_0 \<Rightarrow>
          (case reg1 x of
             Inl e \<Rightarrow> ([], [(B0, x), (B1, x)], Some e)
           | Inr c_1 \<Rightarrow>
               (case costs_until_error reg0 reg1 xs of
                  (vs, cs, r) \<Rightarrow>
                    (of_bool (float_less c_1 c_0) # vs, (B0, x) # (B1, x) # cs, r))))"

definition raise_or :: "'a \<Rightarrow> error option \<Rightarrow> error + 'a" where
  "raise_or v r = (case r of None \<Rightarrow> Inr v | Some e \<Rightarrow> Inl e)"

text \<open>
  What a caller sees of a call's result in a later world: the exception, or the object that
  the returned reference points to.
\<close>

definition observe :: "world \<Rightarrow> error + ref \<Rightarrow> error + pyobj option" where
  "observe w res = (case res of Inl e \<Rightarrow> Inl e | Inr y \<Rightarrow> Inr (deref w y))"

section \<open>A world for the examples\<close>

text \<open>
  A dot product without rounding, for the examples: on small integers and on halves numpy
  computes the same numbers, since every product and sum is a double.
\<close>

fun finite_value :: "float64 \<Rightarrow> real option" where
  "finite_value (Finite x) = Some x"
| "finite_value _ = None"

fun exact_dot :: dot_product where
  "exact_dot [] [] = Finite 0"
| "exact_dot (b # beta) (v # x) =
     (case (finite_value b, finite_value v, exact_dot beta x) of
        (Some p, Some q, Finite s) \<Rightarrow> Finite (p * q + s)
      | _ \<Rightarrow> NaN)"
| "exact_dot _ _ = NaN"

text \<open>
  Two regression models: the first returns the first feature as the cost and raises when
  it is negative, the second returns the second feature.
\<close>

definition example_reg0 :: regmodel where
  "example_reg0 x =
     (if float_less (exact_dot (floats [1, 0]) x) (Finite 0)
      then Inl (Exception ''negative cost'')
      else Inr (exact_dot (floats [1, 0]) x))"

definition example_reg1 :: regmodel where
  "example_reg1 x = Inr (exact_dot (floats [0, 1]) x)"

text \<open>
  The store holds a predictor of each class, the data frame of the specification's example,
  a data frame on whose second row the first model raises, an empty data frame, and one
  whose row is shorter than the weight vectors. The generator draws 1/4, then 3/4, then
  1/2 for ever, and the operator resumes the program at the breakpoint.
\<close>

definition example_world :: world where
  "example_world =
     \<lparr>heap = [LinearThresh (floats [1, - 1]), RandomLinearThresh (floats [1, - 1]),
              DataFrame [floats [2, 1], floats [1, 2]], RegOracle example_reg0 example_reg1,
              DataFrame [floats [2, 1], floats [- 1, 2], floats [1, 2]], DataFrame [],
              DataFrame [floats [1]]],
      rng = 1 / 4 ## 3 / 4 ## sconst (1 / 2), stdin = [Continue], calls = []\<rparr>"

section \<open>Comparison of doubles\<close>

lemma float_less_irrefl [simp]: "\<not> float_less x x"
  by (cases x) simp_all

section \<open>The store\<close>

lemma deref_list_append:
  "deref w y = Some (PyList acc) \<Longrightarrow>
   list_append y v w = (Inr (), w\<lparr>heap := (heap w)[y := PyList (acc @ [v])]\<rparr>)"
  by (simp add: list_append_def)

lemma deref_update_same:
  "deref w y = Some a \<Longrightarrow> deref (w\<lparr>heap := (heap w)[y := b]\<rparr>) y = Some b"
  by (simp add: deref_def split: if_splits)

lemma deref_update_other:
  "r \<noteq> y \<Longrightarrow> deref (w\<lparr>heap := (heap w)[y := b]\<rparr>) r = deref w r"
  by (simp add: deref_def)

lemma heap_update_id:
  "deref w y = Some a \<Longrightarrow> w\<lparr>heap := (heap w)[y := a]\<rparr> = w"
  by (cases w) (auto simp: deref_def split: if_splits)

lemma deref_calls [simp]: "deref (w\<lparr>calls := cs\<rparr>) r = deref w r"
  by (simp add: deref_def)

lemma deref_stdin [simp]: "deref (w\<lparr>stdin := cs\<rparr>) r = deref w r"
  by (simp add: deref_def)

lemma deref_new_old:
  "deref w r = Some v \<Longrightarrow> deref (w\<lparr>heap := heap w @ [a]\<rparr>) r = Some v"
  by (simp add: deref_def nth_append split: if_splits)

lemma deref_new_fresh:
  "deref (w\<lparr>heap := heap w @ [a]\<rparr>) (length (heap w)) = Some a"
  by (simp add: deref_def)

lemma deref_fresh_None: "deref w (length (heap w)) = None"
  by (simp add: deref_def)

lemma iloc_row:
  "deref w X = Some (DataFrame rows) \<Longrightarrow> i < length rows \<Longrightarrow> iloc w X i = Inr (rows ! i)"
  by (simp add: iloc_def)

lemma shape0_Inr:
  "shape0 w X = Inr n \<Longrightarrow> \<exists>rows. deref w X = Some (DataFrame rows) \<and> n = length rows"
  by (auto simp: shape0_def split: option.splits pyobj.splits)

lemma py_range_nat [simp]: "py_range (int n) = [0..<n]"
  by (simp add: py_range_def)

section \<open>The loops\<close>

lemma LinearThresh_loop_run:
  assumes "deref w X = Some (DataFrame rows)" and "deref w y = Some (PyList acc)"
    and "\<forall>i\<in>set idx. i < length rows"
  shows "LinearThresh_loop dot beta X y idx w =
     (case labels_until_error (threshold dot beta) (map ((!) rows) idx) of
        (ys, r) \<Rightarrow> (raise_or () r, w\<lparr>heap := (heap w)[y := PyList (acc @ ys)]\<rparr>))"
  using assms
proof (induction idx arbitrary: w acc)
  case Nil
  then show ?case by (simp add: heap_update_id raise_or_def)
next
  case (Cons i rest)
  have row: "iloc w X i = Inr (rows ! i)"
    using Cons.prems by (simp add: iloc_row)
  show ?case
  proof (cases "np_dot dot beta (rows ! i)")
    case (Inl e)
    then show ?thesis
      using row Cons.prems by (simp add: threshold_def heap_update_id raise_or_def)
  next
    case (Inr c)
    let ?v = "of_bool (float_less c (Finite 0)) :: int"
    let ?w1 = "w\<lparr>heap := (heap w)[y := PyList (acc @ [?v])]\<rparr>"
    have ne: "X \<noteq> y" using Cons.prems by auto
    have X1: "deref ?w1 X = Some (DataFrame rows)"
      using Cons.prems(1) ne by (simp add: deref_update_other)
    have y1: "deref ?w1 y = Some (PyList (acc @ [?v]))"
      using Cons.prems(2) by (rule deref_update_same)
    have rest: "\<forall>i\<in>set rest. i < length rows" using Cons.prems(3) by simp
    have step: "LinearThresh_loop dot beta X y (i # rest) w = LinearThresh_loop dot beta X y rest ?w1"
      using row Inr Cons.prems(2) by (simp add: deref_list_append)
    have thr: "threshold dot beta (rows ! i) = Inr ?v"
      using Inr by (simp add: threshold_def)
    obtain ys r where c: "labels_until_error (threshold dot beta) (map ((!) rows) rest) = (ys, r)"
      by (cases "labels_until_error (threshold dot beta) (map ((!) rows) rest)")
    show ?thesis
      unfolding step Cons.IH [OF X1 y1 rest]
      using thr c by simp
  qed
qed

lemma loops_same:
  "RandomLinearThresh_loop dot beta X y idx w = LinearThresh_loop dot beta X y idx w"
  by (induction idx arbitrary: w) (simp_all split: sum.splits prod.splits)

lemma RegOracle_loop_run:
  assumes "deref w X = Some (DataFrame rows)" and "deref w y = Some (PyList acc)"
    and "\<forall>i\<in>set idx. i < length rows"
  shows "RegOracle_loop reg0 reg1 X y idx w =
     (case costs_until_error reg0 reg1 (map ((!) rows) idx) of
        (ys, cs, r) \<Rightarrow>
          (raise_or () r,
           w\<lparr>heap := (heap w)[y := PyList (acc @ ys)], calls := calls w @ cs\<rparr>))"
  using assms
proof (induction idx arbitrary: w acc)
  case Nil
  then show ?case by (simp add: heap_update_id raise_or_def)
next
  case (Cons i rest)
  let ?x = "rows ! i"
  have row: "iloc w X i = Inr ?x"
    using Cons.prems by (simp add: iloc_row)
  show ?case
  proof (cases "reg0 ?x")
    case (Inl e)
    then show ?thesis
      using row Cons.prems by (simp add: call_model_def heap_update_id raise_or_def)
  next
    case c0: (Inr c_0)
    show ?thesis
    proof (cases "reg1 ?x")
      case (Inl e)
      then show ?thesis
        using row c0 Cons.prems by (simp add: call_model_def heap_update_id raise_or_def)
    next
      case c1: (Inr c_1)
      let ?v = "of_bool (float_less c_1 c_0) :: int"
      let ?w2 = "w\<lparr>calls := calls w @ [(B0, ?x), (B1, ?x)]\<rparr>"
      let ?w3 = "?w2\<lparr>heap := (heap ?w2)[y := PyList (acc @ [?v])]\<rparr>"
      have ne: "X \<noteq> y" using Cons.prems by auto
      have y2: "deref ?w2 y = Some (PyList acc)" using Cons.prems(2) by simp
      have X3: "deref ?w3 X = Some (DataFrame rows)"
        using Cons.prems(1) ne by (auto simp: deref_def split: if_splits)
      have y3: "deref ?w3 y = Some (PyList (acc @ [?v]))"
        using y2 by (auto simp: deref_def split: if_splits)
      have rest: "\<forall>i\<in>set rest. i < length rows" using Cons.prems(3) by simp
      have step: "RegOracle_loop reg0 reg1 X y (i # rest) w = RegOracle_loop reg0 reg1 X y rest ?w3"
        using row c0 c1 deref_list_append [OF y2] by (simp add: call_model_def)
      obtain ys cs r where c: "costs_until_error reg0 reg1 (map ((!) rows) rest) = (ys, cs, r)"
        by (cases "costs_until_error reg0 reg1 (map ((!) rows) rest)")
      show ?thesis
        unfolding step Cons.IH [OF X3 y3 rest]
        using c0 c1 c by simp
    qed
  qed
qed

section \<open>The reference functions\<close>

lemma labels_until_error_None:
  "labels_until_error f xs = (ys, None) \<Longrightarrow>
   length ys = length xs \<and> (\<forall>i<length xs. f (xs ! i) = Inr (ys ! i))"
proof (induction xs arbitrary: ys)
  case Nil
  then show ?case by simp
next
  case (Cons x xs)
  from Cons.prems obtain v vs where v: "f x = Inr v"
    and vs: "labels_until_error f xs = (vs, None)" and ys: "ys = v # vs"
    by (auto split: sum.splits prod.splits)
  from Cons.IH [OF vs] show ?case
    using v ys by (auto simp: nth_Cons split: nat.splits)
qed

lemma labels_until_error_all:
  "\<forall>x\<in>set xs. f x = Inr (g x) \<Longrightarrow> labels_until_error f xs = (map g xs, None)"
  by (induction xs) simp_all

lemma costs_until_error_None:
  "costs_until_error reg0 reg1 xs = (ys, cs, None) \<Longrightarrow>
   length ys = length xs \<and>
   (\<forall>i<length xs. \<exists>c_0 c_1. reg0 (xs ! i) = Inr c_0 \<and> reg1 (xs ! i) = Inr c_1 \<and>
      ys ! i = of_bool (float_less c_1 c_0))"
proof (induction xs arbitrary: ys cs)
  case Nil
  then show ?case by simp
next
  case (Cons x xs)
  from Cons.prems obtain c_0 c_1 vs cs' where c0: "reg0 x = Inr c_0" and c1: "reg1 x = Inr c_1"
    and vs: "costs_until_error reg0 reg1 xs = (vs, cs', None)"
    and ys: "ys = of_bool (float_less c_1 c_0) # vs"
    by (auto split: sum.splits prod.splits)
  note IH = Cons.IH [OF vs]
  show ?case
  proof (intro conjI allI impI)
    show "length ys = length (x # xs)" using IH ys by simp
  next
    fix i assume i: "i < length (x # xs)"
    show "\<exists>c_0 c_1. reg0 ((x # xs) ! i) = Inr c_0 \<and> reg1 ((x # xs) ! i) = Inr c_1 \<and>
        ys ! i = of_bool (float_less c_1 c_0)"
    proof (cases i)
      case 0
      then show ?thesis using c0 c1 ys by simp
    next
      case (Suc k)
      then have "k < length xs" using i by simp
      with IH obtain d_0 d_1 where "reg0 (xs ! k) = Inr d_0" "reg1 (xs ! k) = Inr d_1"
        "vs ! k = of_bool (float_less d_1 d_0)" by blast
      then show ?thesis using Suc ys by simp
    qed
  qed
qed

lemma costs_until_error_all:
  "\<forall>x\<in>set xs. reg0 x = Inr (c0 x) \<and> reg1 x = Inr (c1 x) \<Longrightarrow>
   costs_until_error reg0 reg1 xs =
     (map (\<lambda>x. of_bool (float_less (c1 x) (c0 x))) xs, concat (map (\<lambda>x. [(B0, x), (B1, x)]) xs), None)"
  by (induction xs) simp_all

lemma costs_until_error_first:
  assumes "i < length xs"
    and "\<forall>j<i. (\<exists>c. reg0 (xs ! j) = Inr c) \<and> (\<exists>c. reg1 (xs ! j) = Inr c)"
    and "reg0 (xs ! i) = Inl e \<or> (\<exists>c. reg0 (xs ! i) = Inr c) \<and> reg1 (xs ! i) = Inl e"
  shows "snd (costs_until_error reg0 reg1 xs) =
     (concat (map (\<lambda>x. [(B0, x), (B1, x)]) (take i xs)) @
        (case reg0 (xs ! i) of
           Inl e' \<Rightarrow> [(B0, xs ! i)]
         | Inr c \<Rightarrow> [(B0, xs ! i), (B1, xs ! i)]),
      Some e)"
  using assms
proof (induction xs arbitrary: i)
  case Nil
  then show ?case by simp
next
  case (Cons x xs)
  show ?case
  proof (cases i)
    case 0
    then show ?thesis using Cons.prems(3) by auto
  next
    case (Suc k)
    have k: "k < length xs" using Cons.prems(1) Suc by simp
    have before: "\<forall>j<k. (\<exists>c. reg0 (xs ! j) = Inr c) \<and> (\<exists>c. reg1 (xs ! j) = Inr c)"
    proof (intro allI impI)
      fix j assume "j < k"
      then have "Suc j < i" using Suc by simp
      with Cons.prems(2) show "(\<exists>c. reg0 (xs ! j) = Inr c) \<and> (\<exists>c. reg1 (xs ! j) = Inr c)"
        by fastforce
    qed
    have at: "reg0 (xs ! k) = Inl e \<or> (\<exists>c. reg0 (xs ! k) = Inr c) \<and> reg1 (xs ! k) = Inl e"
      using Cons.prems(3) Suc by simp
    have "0 < i" using Suc by simp
    with Cons.prems(2) obtain c_0 c_1 where x: "reg0 x = Inr c_0" "reg1 x = Inr c_1"
      by fastforce
    show ?thesis
      unfolding Suc
      using Cons.IH [OF k before at] x
      by (auto split: prod.splits sum.splits)
  qed
qed

section \<open>The methods\<close>

lemma get_coefficient_cases:
  "get_coefficient w self = Inr beta \<Longrightarrow>
   deref w self = Some (RandomLinearThresh beta) \<or> deref w self = Some (LinearThresh beta)"
  by (auto simp: get_coefficient_def split: option.splits pyobj.splits)

lemma LinearThresh_predict_run:
  assumes "get_coefficient w self = Inr beta" and "deref w X = Some (DataFrame rows)"
  shows "LinearThresh_predict dot self X w =
     (case labels_until_error (threshold dot beta) rows of
        (ys, r) \<Rightarrow> (raise_or (length (heap w)) r, w\<lparr>heap := heap w @ [PyList ys]\<rparr>))"
proof -
  let ?w1 = "w\<lparr>heap := heap w @ [PyList []]\<rparr>"
  let ?y = "length (heap w)"
  have X1: "deref ?w1 X = Some (DataFrame rows)"
    using assms(2) by (rule deref_new_old)
  have y1: "deref ?w1 ?y = Some (PyList [])"
    by (rule deref_new_fresh)
  have idx: "\<forall>i\<in>set [0..<length rows]. i < length rows" by simp
  have shape: "shape0 w X = Inr (length rows)"
    using assms(2) by (simp add: shape0_def)
  obtain ys r where c: "labels_until_error (threshold dot beta) rows = (ys, r)"
    by (cases "labels_until_error (threshold dot beta) rows")
  have loop: "LinearThresh_loop dot beta X ?y [0..<length rows] ?w1 =
      (raise_or () r, w\<lparr>heap := heap w @ [PyList ys]\<rparr>)"
    unfolding LinearThresh_loop_run [OF X1 y1 idx] by (simp add: map_nth c)
  show ?thesis
    unfolding LinearThresh_predict_def
    using assms(1) shape loop c
    by (cases r) (simp_all add: new_def raise_or_def)
qed

lemma loops_eq: "RandomLinearThresh_loop = LinearThresh_loop"
  by (intro ext) (rule loops_same)

lemma predicts_same: "RandomLinearThresh_predict dot self X w = LinearThresh_predict dot self X w"
  unfolding RandomLinearThresh_predict_def LinearThresh_predict_def loops_eq ..

lemma RegOracle_predict_run:
  assumes "deref w self = Some (RegOracle reg0 reg1)" and "deref w X = Some (DataFrame rows)"
    and "stdin w = Continue # cmds"
  shows "RegOracle_predict self X w =
     (case costs_until_error reg0 reg1 rows of
        (ys, cs, r) \<Rightarrow>
          (raise_or (length (heap w)) r,
           w\<lparr>heap := heap w @ [PyList ys], stdin := cmds, calls := calls w @ cs\<rparr>))"
proof -
  let ?w1 = "w\<lparr>heap := heap w @ [PyList []]\<rparr>"
  let ?w2 = "?w1\<lparr>stdin := cmds\<rparr>"
  let ?y = "length (heap w)"
  have X2: "deref ?w2 X = Some (DataFrame rows)"
    using assms(2) by (simp add: deref_new_old)
  have y2: "deref ?w2 ?y = Some (PyList [])"
    by (simp add: deref_new_fresh)
  have idx: "\<forall>i\<in>set [0..<length rows]. i < length rows" by simp
  have shape: "shape0 w X = Inr (length rows)"
    using assms(2) by (simp add: shape0_def)
  have b: "get_b0 w self = Inr reg0" "get_b1 w self = Inr reg1"
    using assms(1) by (simp_all add: get_b0_def get_b1_def)
  have trace: "pdb_set_trace ?w1 = (Inr (), ?w2)"
    using assms(3) by (simp add: pdb_set_trace_def)
  obtain ys cs r where c: "costs_until_error reg0 reg1 rows = (ys, cs, r)"
    by (cases "costs_until_error reg0 reg1 rows")
  have loop: "RegOracle_loop reg0 reg1 X ?y [0..<length rows] ?w2 =
      (raise_or () r, w\<lparr>heap := heap w @ [PyList ys], stdin := cmds, calls := calls w @ cs\<rparr>)"
    unfolding RegOracle_loop_run [OF X2 y2 idx] by (simp add: map_nth c)
  show ?thesis
    unfolding RegOracle_predict_def
    using b shape trace loop c
    by (cases r) (simp_all add: new_def raise_or_def)
qed

lemma RegOracle_predict_without_breakpoint_run:
  assumes "deref w self = Some (RegOracle reg0 reg1)" and "deref w X = Some (DataFrame rows)"
  shows "RegOracle_predict_without_breakpoint self X w =
     (case costs_until_error reg0 reg1 rows of
        (ys, cs, r) \<Rightarrow>
          (raise_or (length (heap w)) r,
           w\<lparr>heap := heap w @ [PyList ys], calls := calls w @ cs\<rparr>))"
proof -
  let ?w1 = "w\<lparr>heap := heap w @ [PyList []]\<rparr>"
  let ?y = "length (heap w)"
  have X1: "deref ?w1 X = Some (DataFrame rows)"
    using assms(2) by (simp add: deref_new_old)
  have y1: "deref ?w1 ?y = Some (PyList [])"
    by (simp add: deref_new_fresh)
  have idx: "\<forall>i\<in>set [0..<length rows]. i < length rows" by simp
  have shape: "shape0 w X = Inr (length rows)"
    using assms(2) by (simp add: shape0_def)
  have b: "get_b0 w self = Inr reg0" "get_b1 w self = Inr reg1"
    using assms(1) by (simp_all add: get_b0_def get_b1_def)
  obtain ys cs r where c: "costs_until_error reg0 reg1 rows = (ys, cs, r)"
    by (cases "costs_until_error reg0 reg1 rows")
  have loop: "RegOracle_loop reg0 reg1 X ?y [0..<length rows] ?w1 =
      (raise_or () r, w\<lparr>heap := heap w @ [PyList ys], calls := calls w @ cs\<rparr>)"
    unfolding RegOracle_loop_run [OF X1 y1 idx] by (simp add: map_nth c)
  show ?thesis
    unfolding RegOracle_predict_without_breakpoint_def
    using b shape loop c
    by (cases r) (simp_all add: new_def raise_or_def)
qed

lemma RegOracle_predict_quit:
  assumes "deref w self = Some (RegOracle reg0 reg1)" and "deref w X = Some (DataFrame rows)"
    and "stdin w = [] \<or> stdin w = Quit # cmds"
  shows "RegOracle_predict self X w =
     (Inl BdbQuit, w\<lparr>heap := heap w @ [PyList []], stdin := tl (stdin w)\<rparr>)"
proof -
  have shape: "shape0 w X = Inr (length rows)"
    using assms(2) by (simp add: shape0_def)
  have b: "get_b0 w self = Inr reg0" "get_b1 w self = Inr reg1"
    using assms(1) by (simp_all add: get_b0_def get_b1_def)
  show ?thesis
    unfolding RegOracle_predict_def
    using b shape assms(3)
    by (auto simp: new_def pdb_set_trace_def)
qed

lemmas eval_defs =
  example_world_def LinearThresh_predict_def RandomLinearThresh_predict_def
  RegOracle_predict_def RegOracle_predict_without_breakpoint_def
  get_coefficient_def get_b0_def get_b1_def shape0_def iloc_def list_append_def
  deref_def new_def np_dot_def py_range_def pdb_set_trace_def call_model_def


section \<open>Frame lemmas\<close>

lemma deref_heap_append:
  "heap w' = heap w @ zs \<Longrightarrow> deref w r = Some v \<Longrightarrow> deref w' r = Some v"
  by (simp add: deref_def nth_append split: if_splits)

lemma threshold_Inr:
  "threshold dot beta x = Inr v \<Longrightarrow>
   v = of_bool (float_less (dot beta x) (Finite 0)) \<and> length beta = length x"
  by (auto simp: threshold_def np_dot_def split: if_splits)

lemma threshold_matching:
  "length x = length beta \<Longrightarrow>
   threshold dot beta x = Inr (of_bool (float_less (dot beta x) (Finite 0)))"
  by (simp add: threshold_def np_dot_def)

lemma LinearThresh_predict_frame:
  "\<exists>zs. heap (snd (LinearThresh_predict dot self X w)) = heap w @ zs \<and>
     rng (snd (LinearThresh_predict dot self X w)) = rng w \<and>
     stdin (snd (LinearThresh_predict dot self X w)) = stdin w \<and>
     calls (snd (LinearThresh_predict dot self X w)) = calls w"
proof (cases "get_coefficient w self")
  case (Inl e)
  then show ?thesis by (simp add: LinearThresh_predict_def)
next
  case beta: (Inr beta)
  show ?thesis
  proof (cases "shape0 w X")
    case (Inl e)
    then show ?thesis using beta by (simp add: LinearThresh_predict_def)
  next
    case (Inr n)
    then obtain rows where X: "deref w X = Some (DataFrame rows)"
      using shape0_Inr by blast
    show ?thesis
      unfolding LinearThresh_predict_run [OF beta X]
      by (simp split: prod.splits)
  qed
qed

lemma RegOracle_predict_frame:
  "\<exists>zs. heap (snd (RegOracle_predict self X w)) = heap w @ zs \<and>
     rng (snd (RegOracle_predict self X w)) = rng w"
proof (cases "get_b0 w self")
  case (Inl e)
  then show ?thesis by (simp add: RegOracle_predict_def)
next
  case (Inr reg0)
  then obtain reg1 where self: "deref w self = Some (RegOracle reg0 reg1)"
    by (auto simp: get_b0_def split: option.splits pyobj.splits)
  show ?thesis
  proof (cases "shape0 w X")
    case (Inl e)
    then show ?thesis using self
      by (simp add: RegOracle_predict_def get_b0_def get_b1_def)
  next
    case (Inr n)
    then obtain rows where X: "deref w X = Some (DataFrame rows)"
      using shape0_Inr by blast
    show ?thesis
    proof (cases "stdin w")
      case Nil
      then show ?thesis
        using RegOracle_predict_quit [OF self X, of undefined] by simp
    next
      case (Cons c cmds)
      show ?thesis
      proof (cases c)
        case Continue
        show ?thesis
          unfolding RegOracle_predict_run [OF self X Cons [unfolded Continue]]
          by (simp split: prod.splits)
      next
        case Quit
        then show ?thesis
          using RegOracle_predict_quit [OF self X, of cmds] Cons by simp
      qed
    qed
  qed
qed

lemma uniform_list_run:
  "uniform_list idx w =
     (map (\<lambda>u. Finite (2 * u - 1)) (stake (length idx) (rng w)), w\<lparr>rng := sdrop (length idx) (rng w)\<rparr>)"
proof (induction idx arbitrary: w)
  case Nil
  then show ?case by simp
next
  case (Cons i rest)
  show ?case
    by (simp add: np_random_uniform_def Cons.IH)
qed

lemma set_stake_subset: "set (stake n s) \<subseteq> sset s"
proof (induction n arbitrary: s)
  case 0
  then show ?case by simp
next
  case (Suc n)
  have "set (stake n (stl s)) \<subseteq> sset (stl s)" by (rule Suc.IH)
  also have "\<dots> \<subseteq> sset s" by (auto intro: stl_sset)
  finally show ?case by (simp add: stream.set_sel(1))
qed

lemma predict_self_coefficient:
  "get_coefficient w a = get_coefficient w b \<Longrightarrow>
   LinearThresh_predict dot a X w = LinearThresh_predict dot b X w"
  by (simp add: LinearThresh_predict_def)

lemma RandomLinearThresh_init_run:
  "RandomLinearThresh_init d w =
     (length (heap w),
      w\<lparr>heap := heap w @ [RandomLinearThresh (map (\<lambda>u. Finite (2 * u - 1)) (stake (nat d) (rng w)))],
        rng := sdrop (nat d) (rng w)\<rparr>)"
  by (simp add: RandomLinearThresh_init_def uniform_list_run new_def py_range_def)

section \<open>The claims\<close>

text \<open>
  Claim C1. Let a predictor of either linear class have the weight vector \<open>beta\<close>, and let
  every row of the data frame have as many entries as \<open>beta\<close>, so that \<^verbatim>\<open>np.dot\<close> returns a
  number for every row. Then \<^verbatim>\<open>predict\<close> of \<^verbatim>\<open>LinearThresh\<close> and \<^verbatim>\<open>predict\<close> of
  \<^verbatim>\<open>RandomLinearThresh\<close> both return a new list with one label for each row, and the
  label of row \<open>i\<close> is 1 if and only if the number that \<^verbatim>\<open>np.dot\<close> returns for \<open>beta\<close> and
  row \<open>i\<close> is strictly below 0, and 0 otherwise; in particular it is 0 when that number is
  0. This holds for every \<open>dot\<close>, that is, whatever numpy's arithmetic computes.
\<close>

theorem linear_predict_label_rule:
  assumes "get_coefficient w self = Inr beta"
    and "deref w X = Some (DataFrame rows)"
    and "\<forall>r\<in>set rows. length r = length beta"
    and "i < length rows"
  shows "\<exists>ys. LinearThresh_predict dot self X w =
                (Inr (length (heap w)), w\<lparr>heap := heap w @ [PyList ys]\<rparr>) \<and>
              RandomLinearThresh_predict dot self X w =
                (Inr (length (heap w)), w\<lparr>heap := heap w @ [PyList ys]\<rparr>) \<and>
              length ys = length rows \<and>
              (ys ! i = 1 \<longleftrightarrow> float_less (dot beta (rows ! i)) (Finite 0)) \<and>
              (ys ! i = 0 \<longleftrightarrow> \<not> float_less (dot beta (rows ! i)) (Finite 0)) \<and>
              (dot beta (rows ! i) = Finite 0 \<longrightarrow> ys ! i = 0)"
proof -
  let ?label = "\<lambda>r. of_bool (float_less (dot beta r) (Finite 0)) :: int"
  have "\<forall>r\<in>set rows. threshold dot beta r = Inr (?label r)"
    using assms(3) by (simp add: threshold_matching)
  then have c: "labels_until_error (threshold dot beta) rows = (map ?label rows, None)"
    by (rule labels_until_error_all)
  have run: "LinearThresh_predict dot self X w =
      (Inr (length (heap w)), w\<lparr>heap := heap w @ [PyList (map ?label rows)]\<rparr>)"
    unfolding LinearThresh_predict_run [OF assms(1,2)] c by (simp add: raise_or_def)
  have label: "map ?label rows ! i = ?label (rows ! i)"
    using assms(4) by simp
  have zero: "dot beta (rows ! i) = Finite 0 \<longrightarrow> ?label (rows ! i) = 0"
    by simp
  show ?thesis
    using run label zero
    by (intro exI [of _ "map ?label rows"]) (simp add: predicts_same)
qed

text \<open>
  The example of the specification, for both classes: the weight vector \<^verbatim>\<open>[1, -1]\<close> on the
  rows \<^verbatim>\<open>[[2, 1], [1, 2]]\<close> gives the dot products 1 and -1 and the labels \<^verbatim>\<open>[0, 1]\<close>.
\<close>

theorem linear_predict_label_rule_witness:
  "get_coefficient example_world 0 = Inr (floats [1, - 1]) \<and>
   get_coefficient example_world 1 = Inr (floats [1, - 1]) \<and>
   deref example_world 2 = Some (DataFrame [floats [2, 1], floats [1, 2]]) \<and>
   length (floats [2, 1]) = length (floats [1, - 1]) \<and>
   length (floats [1, 2]) = length (floats [1, - 1]) \<and>
   exact_dot (floats [1, - 1]) (floats [2, 1]) = Finite 1 \<and>
   exact_dot (floats [1, - 1]) (floats [1, 2]) = Finite (- 1) \<and>
   LinearThresh_predict exact_dot 0 2 example_world =
     (Inr 7, example_world\<lparr>heap := heap example_world @ [PyList [0, 1]]\<rparr>) \<and>
   RandomLinearThresh_predict exact_dot 1 2 example_world =
     (Inr 7, example_world\<lparr>heap := heap example_world @ [PyList [0, 1]]\<rparr>) \<and>
   (\<exists>ys. LinearThresh_predict exact_dot 0 2 example_world =
            (Inr (length (heap example_world)),
             example_world\<lparr>heap := heap example_world @ [PyList ys]\<rparr>) \<and>
         RandomLinearThresh_predict exact_dot 0 2 example_world =
            (Inr (length (heap example_world)),
             example_world\<lparr>heap := heap example_world @ [PyList ys]\<rparr>) \<and>
         length ys = length [floats [2, 1], floats [1, 2]] \<and>
         (ys ! 1 = 1 \<longleftrightarrow>
            float_less (exact_dot (floats [1, - 1]) ([floats [2, 1], floats [1, 2]] ! 1))
              (Finite 0)) \<and>
         (ys ! 1 = 0 \<longleftrightarrow>
            \<not> float_less (exact_dot (floats [1, - 1]) ([floats [2, 1], floats [1, 2]] ! 1))
              (Finite 0)) \<and>
         (exact_dot (floats [1, - 1]) ([floats [2, 1], floats [1, 2]] ! 1) = Finite 0 \<longrightarrow>
            ys ! 1 = 0)) \<and>
   (\<exists>ys. LinearThresh_predict exact_dot 1 2 example_world =
            (Inr (length (heap example_world)),
             example_world\<lparr>heap := heap example_world @ [PyList ys]\<rparr>) \<and>
         RandomLinearThresh_predict exact_dot 1 2 example_world =
            (Inr (length (heap example_world)),
             example_world\<lparr>heap := heap example_world @ [PyList ys]\<rparr>) \<and>
         length ys = length [floats [2, 1], floats [1, 2]] \<and>
         (ys ! 0 = 1 \<longleftrightarrow>
            float_less (exact_dot (floats [1, - 1]) ([floats [2, 1], floats [1, 2]] ! 0))
              (Finite 0)) \<and>
         (ys ! 0 = 0 \<longleftrightarrow>
            \<not> float_less (exact_dot (floats [1, - 1]) ([floats [2, 1], floats [1, 2]] ! 0))
              (Finite 0)) \<and>
         (exact_dot (floats [1, - 1]) ([floats [2, 1], floats [1, 2]] ! 0) = Finite 0 \<longrightarrow>
            ys ! 0 = 0))"
proof -
  have lin: "get_coefficient example_world 0 = Inr (floats [1, - 1])"
    by (simp add: eval_defs)
  have rnd: "get_coefficient example_world 1 = Inr (floats [1, - 1])"
    by (simp add: eval_defs)
  have X: "deref example_world 2 = Some (DataFrame [floats [2, 1], floats [1, 2]])"
    by (simp add: eval_defs)
  have len: "\<forall>r\<in>set [floats [2, 1], floats [1, 2]]. length r = length (floats [1, - 1])"
    by simp
  have i1: "(1 :: nat) < length [floats [2, 1], floats [1, 2]]"
    and i0: "(0 :: nat) < length [floats [2, 1], floats [1, 2]]"
    by simp_all
  have d0: "exact_dot (floats [1, - 1]) (floats [2, 1]) = Finite 1"
    and d1: "exact_dot (floats [1, - 1]) (floats [1, 2]) = Finite (- 1)"
    by simp_all
  have run_lin: "LinearThresh_predict exact_dot 0 2 example_world =
     (Inr 7, example_world\<lparr>heap := heap example_world @ [PyList [0, 1]]\<rparr>)"
    by (simp add: eval_defs upt_rec)
  have run_rnd: "RandomLinearThresh_predict exact_dot 1 2 example_world =
     (Inr 7, example_world\<lparr>heap := heap example_world @ [PyList [0, 1]]\<rparr>)"
    by (simp add: eval_defs upt_rec)
  note on_lin = linear_predict_label_rule [OF lin X len i1, of exact_dot]
  note on_rnd = linear_predict_label_rule [OF rnd X len i0, of exact_dot]
  show ?thesis
    using lin rnd X d0 d1 run_lin run_rnd on_lin on_rnd
    by (intro conjI) (assumption | simp)+
qed

text \<open>
  Claim C2. Whenever \<^verbatim>\<open>RegOracle.predict\<close> returns, the list it returns has one label
  for each row; on row \<open>i\<close> both models have returned a cost, and the label is 1 if and
  only if the cost of \<^verbatim>\<open>b1\<close> is strictly less than the cost of \<^verbatim>\<open>b0\<close>, and 0
  otherwise; in particular it is 0 when the two costs are equal.
\<close>

theorem RegOracle_predict_label_rule:
  assumes "deref w self = Some (RegOracle reg0 reg1)"
    and "deref w X = Some (DataFrame rows)"
    and "RegOracle_predict self X w = (Inr y, w')"
    and "i < length rows"
  shows "\<exists>ys c_0 c_1. deref w' y = Some (PyList ys) \<and> length ys = length rows \<and>
           reg0 (rows ! i) = Inr c_0 \<and> reg1 (rows ! i) = Inr c_1 \<and>
           (ys ! i = 1 \<longleftrightarrow> float_less c_1 c_0) \<and>
           (ys ! i = 0 \<longleftrightarrow> \<not> float_less c_1 c_0) \<and>
           (c_1 = c_0 \<longrightarrow> ys ! i = 0)"
proof -
  have "\<exists>cmds. stdin w = Continue # cmds"
  proof (rule ccontr)
    assume "\<not> (\<exists>cmds. stdin w = Continue # cmds)"
    then have "stdin w = [] \<or> stdin w = Quit # tl (stdin w)"
      by (cases "stdin w") (auto intro: pdb_cmd.exhaust)
    from RegOracle_predict_quit [OF assms(1,2) this] assms(3) show False by simp
  qed
  then obtain cmds where cont: "stdin w = Continue # cmds" ..
  obtain ys cs r where c: "costs_until_error reg0 reg1 rows = (ys, cs, r)"
    by (cases "costs_until_error reg0 reg1 rows")
  have res: "r = None \<and> y = length (heap w) \<and>
      w' = w\<lparr>heap := heap w @ [PyList ys], stdin := cmds, calls := calls w @ cs\<rparr>"
    using assms(3) unfolding RegOracle_predict_run [OF assms(1,2) cont] c
    by (cases r) (auto simp: raise_or_def)
  then have stored: "deref w' y = Some (PyList ys)"
    by (simp add: deref_def)
  have all: "length ys = length rows \<and>
      (\<forall>i<length rows. \<exists>c_0 c_1. reg0 (rows ! i) = Inr c_0 \<and> reg1 (rows ! i) = Inr c_1 \<and>
         ys ! i = of_bool (float_less c_1 c_0))"
    using c res costs_until_error_None by blast
  then obtain c_0 c_1 where costs: "reg0 (rows ! i) = Inr c_0" "reg1 (rows ! i) = Inr c_1"
    and label: "ys ! i = of_bool (float_less c_1 c_0)"
    using assms(4) by blast
  have rule: "(ys ! i = 1 \<longleftrightarrow> float_less c_1 c_0) \<and>
      (ys ! i = 0 \<longleftrightarrow> \<not> float_less c_1 c_0) \<and> (c_1 = c_0 \<longrightarrow> ys ! i = 0)"
    using label by (cases "float_less c_1 c_0") auto
  show ?thesis
    using stored all costs rule by (intro exI [of _ ys] exI [of _ c_0] exI [of _ c_1]) simp
qed

theorem RegOracle_predict_label_rule_witness:
  "deref example_world 3 = Some (RegOracle example_reg0 example_reg1) \<and>
   deref example_world 2 = Some (DataFrame [floats [2, 1], floats [1, 2]]) \<and>
   RegOracle_predict 3 2 example_world =
     (Inr 7, example_world\<lparr>heap := heap example_world @ [PyList [1, 0]], stdin := [],
        calls := [(B0, floats [2, 1]), (B1, floats [2, 1]),
                  (B0, floats [1, 2]), (B1, floats [1, 2])]\<rparr>) \<and>
   (0 :: nat) < length [floats [2, 1], floats [1, 2]] \<and>
   (\<exists>ys c_0 c_1.
      deref (example_world\<lparr>heap := heap example_world @ [PyList [1, 0]], stdin := [],
        calls := [(B0, floats [2, 1]), (B1, floats [2, 1]),
                  (B0, floats [1, 2]), (B1, floats [1, 2])]\<rparr>) 7 =
        Some (PyList ys) \<and>
      length ys = length [floats [2, 1], floats [1, 2]] \<and>
      example_reg0 ([floats [2, 1], floats [1, 2]] ! 0) = Inr c_0 \<and>
      example_reg1 ([floats [2, 1], floats [1, 2]] ! 0) = Inr c_1 \<and>
      (ys ! 0 = 1 \<longleftrightarrow> float_less c_1 c_0) \<and>
      (ys ! 0 = 0 \<longleftrightarrow> \<not> float_less c_1 c_0) \<and>
      (c_1 = c_0 \<longrightarrow> ys ! 0 = 0))"
proof -
  have h1: "deref example_world 3 = Some (RegOracle example_reg0 example_reg1)"
    by (simp add: eval_defs)
  have h2: "deref example_world 2 = Some (DataFrame [floats [2, 1], floats [1, 2]])"
    by (simp add: eval_defs)
  have h3: "RegOracle_predict 3 2 example_world =
     (Inr 7, example_world\<lparr>heap := heap example_world @ [PyList [1, 0]], stdin := [],
        calls := [(B0, floats [2, 1]), (B1, floats [2, 1]),
                  (B0, floats [1, 2]), (B1, floats [1, 2])]\<rparr>)"
    by (simp add: eval_defs upt_rec example_reg0_def example_reg1_def)
  have h4: "(0 :: nat) < length [floats [2, 1], floats [1, 2]]" by simp
  show ?thesis
    using h1 h2 h3 h4 RegOracle_predict_label_rule [OF h1 h2 h3 h4] by (intro conjI)
qed

text \<open>
  Claim C3, as stated, fails: \<^verbatim>\<open>LinearThresh([1, -1])\<close> called on a data frame of one row
  \<^verbatim>\<open>[1]\<close> raises \<^verbatim>\<open>ValueError\<close> and returns no label.
\<close>

theorem predict_returns_labels_counterexample:
  "deref example_world 0 = Some (LinearThresh (floats [1, - 1])) \<and>
   deref example_world 6 = Some (DataFrame [floats [1]]) \<and>
   fst (LinearThresh_predict exact_dot 0 6 example_world) = Inl ValueError"
  by (simp add: eval_defs upt_rec)

text \<open>
  Claim C3, amended. On a data frame of \<open>n\<close> rows, each with as many entries as the weight
  vector, \<^verbatim>\<open>predict\<close> of \<^verbatim>\<open>LinearThresh\<close> and of \<^verbatim>\<open>RandomLinearThresh\<close> returns a new
  list of exactly \<open>n\<close> labels, each 0 or 1, the label at position \<open>i\<close> computed from the
  row at position \<open>i\<close>. \<^verbatim>\<open>RegOracle.predict\<close> does so when both models return a cost on
  every row and the program is resumed at the breakpoint.
\<close>

theorem predict_returns_labels:
  assumes "deref w X = Some (DataFrame rows)"
  shows "(get_coefficient w self = Inr beta \<and> (\<forall>r\<in>set rows. length r = length beta) \<longrightarrow>
           (\<exists>ys. LinearThresh_predict dot self X w =
                    (Inr (length (heap w)), w\<lparr>heap := heap w @ [PyList ys]\<rparr>) \<and>
                 RandomLinearThresh_predict dot self X w =
                    (Inr (length (heap w)), w\<lparr>heap := heap w @ [PyList ys]\<rparr>) \<and>
                 length ys = length rows \<and>
                 (\<forall>i<length rows.
                    ys ! i = of_bool (float_less (dot beta (rows ! i)) (Finite 0)) \<and>
                    ys ! i \<in> {0, 1}))) \<and>
         (deref w self = Some (RegOracle reg0 reg1) \<and> stdin w = Continue # cmds \<and>
            (\<forall>r\<in>set rows. reg0 r = Inr (c0 r) \<and> reg1 r = Inr (c1 r)) \<longrightarrow>
           (\<exists>ys w'. RegOracle_predict self X w = (Inr (length (heap w)), w') \<and>
                 deref w' (length (heap w)) = Some (PyList ys) \<and>
                 length ys = length rows \<and>
                 (\<forall>i<length rows.
                    ys ! i = of_bool (float_less (c1 (rows ! i)) (c0 (rows ! i))) \<and>
                    ys ! i \<in> {0, 1})))"
proof (intro conjI impI)
  assume a: "get_coefficient w self = Inr beta \<and> (\<forall>r\<in>set rows. length r = length beta)"
  let ?ys = "map (\<lambda>r. of_bool (float_less (dot beta r) (Finite 0))) rows :: int list"
  have "\<forall>r\<in>set rows. threshold dot beta r = Inr (of_bool (float_less (dot beta r) (Finite 0)))"
    using a by (simp add: threshold_matching)
  then have c: "labels_until_error (threshold dot beta) rows = (?ys, None)"
    by (rule labels_until_error_all)
  have run: "LinearThresh_predict dot self X w =
      (Inr (length (heap w)), w\<lparr>heap := heap w @ [PyList ?ys]\<rparr>)"
    using a assms by (simp add: LinearThresh_predict_run c raise_or_def)
  show "\<exists>ys. LinearThresh_predict dot self X w =
            (Inr (length (heap w)), w\<lparr>heap := heap w @ [PyList ys]\<rparr>) \<and>
         RandomLinearThresh_predict dot self X w =
            (Inr (length (heap w)), w\<lparr>heap := heap w @ [PyList ys]\<rparr>) \<and>
         length ys = length rows \<and>
         (\<forall>i<length rows. ys ! i = of_bool (float_less (dot beta (rows ! i)) (Finite 0)) \<and>
                    ys ! i \<in> {0, 1})"
    using run by (intro exI [of _ ?ys]) (simp add: predicts_same)
next
  assume a: "deref w self = Some (RegOracle reg0 reg1) \<and> stdin w = Continue # cmds \<and>
      (\<forall>r\<in>set rows. reg0 r = Inr (c0 r) \<and> reg1 r = Inr (c1 r))"
  let ?ys = "map (\<lambda>r. of_bool (float_less (c1 r) (c0 r))) rows :: int list"
  let ?cs = "concat (map (\<lambda>x. [(B0, x), (B1, x)]) rows)"
  let ?w' = "w\<lparr>heap := heap w @ [PyList ?ys], stdin := cmds, calls := calls w @ ?cs\<rparr>"
  have c: "costs_until_error reg0 reg1 rows = (?ys, ?cs, None)"
    using a by (intro costs_until_error_all) simp
  have run: "RegOracle_predict self X w = (Inr (length (heap w)), ?w')"
    using a assms by (simp add: RegOracle_predict_run c raise_or_def)
  have stored: "deref ?w' (length (heap w)) = Some (PyList ?ys)"
    by (simp add: deref_def)
  show "\<exists>ys w'. RegOracle_predict self X w = (Inr (length (heap w)), w') \<and>
         deref w' (length (heap w)) = Some (PyList ys) \<and>
         length ys = length rows \<and>
         (\<forall>i<length rows. ys ! i = of_bool (float_less (c1 (rows ! i)) (c0 (rows ! i))) \<and>
                    ys ! i \<in> {0, 1})"
    using run stored by (intro exI [of _ ?ys] exI [of _ ?w']) simp
qed

theorem predict_returns_labels_witness:
  "deref example_world 2 = Some (DataFrame [floats [2, 1], floats [1, 2]]) \<and>
   get_coefficient example_world 0 = Inr (floats [1, - 1]) \<and>
   length (floats [2, 1]) = length (floats [1, - 1]) \<and>
   length (floats [1, 2]) = length (floats [1, - 1]) \<and>
   (\<exists>ys. LinearThresh_predict exact_dot 0 2 example_world =
            (Inr (length (heap example_world)),
             example_world\<lparr>heap := heap example_world @ [PyList ys]\<rparr>) \<and>
         RandomLinearThresh_predict exact_dot 0 2 example_world =
            (Inr (length (heap example_world)),
             example_world\<lparr>heap := heap example_world @ [PyList ys]\<rparr>) \<and>
         length ys = length [floats [2, 1], floats [1, 2]] \<and>
         (\<forall>i<length [floats [2, 1], floats [1, 2]].
            ys ! i =
              of_bool (float_less (exact_dot (floats [1, - 1]) ([floats [2, 1], floats [1, 2]] ! i))
                (Finite 0)) \<and>
            ys ! i \<in> {0, 1})) \<and>
   deref example_world 3 = Some (RegOracle example_reg0 example_reg1) \<and>
   stdin example_world = Continue # [] \<and>
   example_reg0 (floats [2, 1]) = Inr (exact_dot (floats [1, 0]) (floats [2, 1])) \<and>
   example_reg1 (floats [2, 1]) = Inr (exact_dot (floats [0, 1]) (floats [2, 1])) \<and>
   example_reg0 (floats [1, 2]) = Inr (exact_dot (floats [1, 0]) (floats [1, 2])) \<and>
   example_reg1 (floats [1, 2]) = Inr (exact_dot (floats [0, 1]) (floats [1, 2])) \<and>
   (\<exists>ys w'. RegOracle_predict 3 2 example_world = (Inr (length (heap example_world)), w') \<and>
         deref w' (length (heap example_world)) = Some (PyList ys) \<and>
         length ys = length [floats [2, 1], floats [1, 2]] \<and>
         (\<forall>i<length [floats [2, 1], floats [1, 2]].
            ys ! i = of_bool (float_less (exact_dot (floats [0, 1]) ([floats [2, 1], floats [1, 2]] ! i))
                       (exact_dot (floats [1, 0]) ([floats [2, 1], floats [1, 2]] ! i))) \<and>
            ys ! i \<in> {0, 1}))"
proof -
  have X: "deref example_world 2 = Some (DataFrame [floats [2, 1], floats [1, 2]])"
    by (simp add: eval_defs)
  have beta: "get_coefficient example_world 0 = Inr (floats [1, - 1])"
    by (simp add: eval_defs)
  have len: "\<forall>r\<in>set [floats [2, 1], floats [1, 2]]. length r = length (floats [1, - 1])"
    by simp
  have self: "deref example_world 3 = Some (RegOracle example_reg0 example_reg1)"
    by (simp add: eval_defs)
  have cont: "stdin example_world = Continue # []"
    by (simp add: example_world_def)
  have r1: "example_reg0 (floats [2, 1]) = Inr (exact_dot (floats [1, 0]) (floats [2, 1]))"
    and r2: "example_reg1 (floats [2, 1]) = Inr (exact_dot (floats [0, 1]) (floats [2, 1]))"
    and r3: "example_reg0 (floats [1, 2]) = Inr (exact_dot (floats [1, 0]) (floats [1, 2]))"
    and r4: "example_reg1 (floats [1, 2]) = Inr (exact_dot (floats [0, 1]) (floats [1, 2]))"
    by (simp_all add: example_reg0_def example_reg1_def)
  have costs: "\<forall>r\<in>set [floats [2, 1], floats [1, 2]].
      example_reg0 r = Inr (exact_dot (floats [1, 0]) r) \<and>
      example_reg1 r = Inr (exact_dot (floats [0, 1]) r)"
    using r1 r2 r3 r4 by simp
  note inst = predict_returns_labels [OF X]
  have lin: "\<exists>ys. LinearThresh_predict exact_dot 0 2 example_world =
            (Inr (length (heap example_world)),
             example_world\<lparr>heap := heap example_world @ [PyList ys]\<rparr>) \<and>
         RandomLinearThresh_predict exact_dot 0 2 example_world =
            (Inr (length (heap example_world)),
             example_world\<lparr>heap := heap example_world @ [PyList ys]\<rparr>) \<and>
         length ys = length [floats [2, 1], floats [1, 2]] \<and>
         (\<forall>i<length [floats [2, 1], floats [1, 2]].
            ys ! i =
              of_bool (float_less (exact_dot (floats [1, - 1]) ([floats [2, 1], floats [1, 2]] ! i))
                (Finite 0)) \<and>
            ys ! i \<in> {0, 1})"
    by (rule inst [where self = 0 and beta = "floats [1, - 1]" and dot = exact_dot,
          THEN conjunct1, rule_format,
          OF conjI [OF beta len]])
  have reg: "\<exists>ys w'. RegOracle_predict 3 2 example_world = (Inr (length (heap example_world)), w') \<and>
         deref w' (length (heap example_world)) = Some (PyList ys) \<and>
         length ys = length [floats [2, 1], floats [1, 2]] \<and>
         (\<forall>i<length [floats [2, 1], floats [1, 2]].
            ys ! i = of_bool (float_less (exact_dot (floats [0, 1]) ([floats [2, 1], floats [1, 2]] ! i))
                       (exact_dot (floats [1, 0]) ([floats [2, 1], floats [1, 2]] ! i))) \<and>
            ys ! i \<in> {0, 1})"
    by (rule inst [where self = 3 and ?reg0.0 = example_reg0 and ?reg1.0 = example_reg1
          and cmds = "[]" and ?c0.0 = "exact_dot (floats [1, 0])"
          and ?c1.0 = "exact_dot (floats [0, 1])",
          THEN conjunct2, rule_format, OF conjI [OF self conjI [OF cont costs]]])
  show ?thesis
    using X beta self cont r1 r2 r3 r4 lin reg by (intro conjI) (assumption | simp)+
qed

text \<open>
  Claim C4. Two successive calls of \<^verbatim>\<open>predict\<close> on the same instance of
  \<^verbatim>\<open>LinearThresh\<close> or \<^verbatim>\<open>RandomLinearThresh\<close> with the same data frame end alike: after
  the second call the caller holds either the same exception twice or two lists with the
  same labels.
\<close>

theorem linear_predict_deterministic:
  assumes "predict = LinearThresh_predict dot \<or> predict = RandomLinearThresh_predict dot"
    and "predict self X w = (res1, w1)"
    and "predict self X w1 = (res2, w2)"
  shows "observe w2 res1 = observe w2 res2"
proof -
  have call1: "LinearThresh_predict dot self X w = (res1, w1)"
    and call2: "LinearThresh_predict dot self X w1 = (res2, w2)"
    using assms by (auto simp: predicts_same)
  show ?thesis
  proof (cases "get_coefficient w self")
    case (Inl e)
    then have "res1 = Inl e \<and> w1 = w"
      using call1 by (simp add: LinearThresh_predict_def)
    then show ?thesis using call1 call2 by simp
  next
    case beta: (Inr beta)
    show ?thesis
    proof (cases "shape0 w X")
      case (Inl e)
      then have "res1 = Inl e \<and> w1 = w"
        using call1 beta by (simp add: LinearThresh_predict_def)
      then show ?thesis using call1 call2 by simp
    next
      case (Inr n)
      then obtain rows where X: "deref w X = Some (DataFrame rows)"
        using shape0_Inr by blast
      obtain ys r where c: "labels_until_error (threshold dot beta) rows = (ys, r)"
        by (cases "labels_until_error (threshold dot beta) rows")
      have first: "res1 = raise_or (length (heap w)) r \<and> w1 = w\<lparr>heap := heap w @ [PyList ys]\<rparr>"
        using call1 unfolding LinearThresh_predict_run [OF beta X] c by simp
      have X1: "deref w1 X = Some (DataFrame rows)"
        using first X by (simp add: deref_new_old)
      have "deref w1 self = deref w self"
        using first get_coefficient_cases [OF beta] by (auto simp: deref_new_old)
      then have beta1: "get_coefficient w1 self = Inr beta"
        using beta by (simp add: get_coefficient_def)
      have second: "res2 = raise_or (length (heap w1)) r \<and>
          w2 = w1\<lparr>heap := heap w1 @ [PyList ys]\<rparr>"
        using call2 unfolding LinearThresh_predict_run [OF beta1 X1] c by simp
      show ?thesis
        using first second
        by (cases r) (simp_all add: raise_or_def observe_def deref_def nth_append)
    qed
  qed
qed

theorem linear_predict_deterministic_witness:
  "LinearThresh_predict exact_dot 0 2 example_world =
     (Inr 7, example_world\<lparr>heap := heap example_world @ [PyList [0, 1]]\<rparr>) \<and>
   LinearThresh_predict exact_dot 0 2 (example_world\<lparr>heap := heap example_world @ [PyList [0, 1]]\<rparr>) =
     (Inr 8, example_world\<lparr>heap := heap example_world @ [PyList [0, 1], PyList [0, 1]]\<rparr>) \<and>
   observe (example_world\<lparr>heap := heap example_world @ [PyList [0, 1], PyList [0, 1]]\<rparr>) (Inr 7) =
   observe (example_world\<lparr>heap := heap example_world @ [PyList [0, 1], PyList [0, 1]]\<rparr>) (Inr 8)"
proof -
  have h1: "LinearThresh_predict exact_dot = LinearThresh_predict exact_dot \<or>
      LinearThresh_predict exact_dot = RandomLinearThresh_predict exact_dot" by simp
  have h2: "LinearThresh_predict exact_dot 0 2 example_world =
     (Inr 7, example_world\<lparr>heap := heap example_world @ [PyList [0, 1]]\<rparr>)"
    by (simp add: eval_defs upt_rec)
  have h3: "LinearThresh_predict exact_dot 0 2
       (example_world\<lparr>heap := heap example_world @ [PyList [0, 1]]\<rparr>) =
     (Inr 8, example_world\<lparr>heap := heap example_world @ [PyList [0, 1], PyList [0, 1]]\<rparr>)"
    by (simp add: eval_defs upt_rec)
  show ?thesis
    using h2 h3 linear_predict_deterministic [OF h1 h2 h3] by (intro conjI)
qed

text \<open>
  Claim C5. A \<^verbatim>\<open>LinearThresh\<close> constructed with the weight vector \<open>c\<close> and a
  \<^verbatim>\<open>RandomLinearThresh\<close> whose sampled coefficients are \<open>c\<close> give the same result of
  \<^verbatim>\<open>predict\<close> on every data frame: the same exception, or the same labels.
\<close>

theorem linear_and_random_predict_agree:
  assumes "LinearThresh_init c w0 = (a, w1)"
    and "RandomLinearThresh_init d w1 = (b, w)"
    and "get_coefficient w b = Inr c"
  shows "deref w a = Some (LinearThresh c) \<and> deref w b = Some (RandomLinearThresh c) \<and>
         LinearThresh_predict dot a X w = RandomLinearThresh_predict dot b X w"
proof -
  have a: "a = length (heap w0)" and w1: "w1 = w0\<lparr>heap := heap w0 @ [LinearThresh c]\<rparr>"
    using assms(1) by (auto simp: LinearThresh_init_def new_def)
  obtain cs where b: "b = length (heap w1)"
    and w: "heap w = heap w1 @ [RandomLinearThresh cs]"
    using assms(2)
    by (auto simp: RandomLinearThresh_init_def uniform_list_run new_def)
  have at_b: "deref w b = Some (RandomLinearThresh cs)"
    using b w by (simp add: deref_def)
  then have "cs = c"
    using assms(3) by (simp add: get_coefficient_def)
  have at_a: "deref w a = Some (LinearThresh c)"
    using a w1 w by (simp add: deref_def nth_append)
  have "get_coefficient w a = get_coefficient w b"
    using at_a assms(3) by (simp add: get_coefficient_def)
  then have "LinearThresh_predict dot a X w = LinearThresh_predict dot b X w"
    by (rule predict_self_coefficient)
  then show ?thesis
    using at_a at_b \<open>cs = c\<close> by (simp add: predicts_same)
qed

theorem linear_and_random_predict_agree_witness:
  "LinearThresh_init (floats [- 1 / 2, 1 / 2]) example_world =
     (7, example_world
           \<lparr>heap := heap example_world @ [LinearThresh (floats [- 1 / 2, 1 / 2])]\<rparr>) \<and>
   RandomLinearThresh_init 2
     (example_world\<lparr>heap := heap example_world @ [LinearThresh (floats [- 1 / 2, 1 / 2])]\<rparr>) =
     (8, example_world
           \<lparr>heap := heap example_world @
              [LinearThresh (floats [- 1 / 2, 1 / 2]), RandomLinearThresh (floats [- 1 / 2, 1 / 2])],
            rng := sconst (1 / 2)\<rparr>) \<and>
   get_coefficient
     (example_world
        \<lparr>heap := heap example_world @
           [LinearThresh (floats [- 1 / 2, 1 / 2]), RandomLinearThresh (floats [- 1 / 2, 1 / 2])],
         rng := sconst (1 / 2)\<rparr>) 8 =
     Inr (floats [- 1 / 2, 1 / 2]) \<and>
   LinearThresh_predict exact_dot 7 2
     (example_world
        \<lparr>heap := heap example_world @
           [LinearThresh (floats [- 1 / 2, 1 / 2]), RandomLinearThresh (floats [- 1 / 2, 1 / 2])],
         rng := sconst (1 / 2)\<rparr>) =
   RandomLinearThresh_predict exact_dot 8 2
     (example_world
        \<lparr>heap := heap example_world @
           [LinearThresh (floats [- 1 / 2, 1 / 2]), RandomLinearThresh (floats [- 1 / 2, 1 / 2])],
         rng := sconst (1 / 2)\<rparr>) \<and>
   fst (RandomLinearThresh_predict exact_dot 8 2
     (example_world
        \<lparr>heap := heap example_world @
           [LinearThresh (floats [- 1 / 2, 1 / 2]), RandomLinearThresh (floats [- 1 / 2, 1 / 2])],
         rng := sconst (1 / 2)\<rparr>)) = Inr 9"
proof -
  have h1: "LinearThresh_init (floats [- 1 / 2, 1 / 2]) example_world =
     (7, example_world
           \<lparr>heap := heap example_world @ [LinearThresh (floats [- 1 / 2, 1 / 2])]\<rparr>)"
    by (simp add: LinearThresh_init_def new_def example_world_def)
  have h2: "RandomLinearThresh_init 2
     (example_world\<lparr>heap := heap example_world @ [LinearThresh (floats [- 1 / 2, 1 / 2])]\<rparr>) =
     (8, example_world
           \<lparr>heap := heap example_world @
              [LinearThresh (floats [- 1 / 2, 1 / 2]), RandomLinearThresh (floats [- 1 / 2, 1 / 2])],
            rng := sconst (1 / 2)\<rparr>)"
    by (simp add: RandomLinearThresh_init_def np_random_uniform_def new_def example_world_def
        py_range_def upt_rec)
  have h3: "get_coefficient
     (example_world
        \<lparr>heap := heap example_world @
           [LinearThresh (floats [- 1 / 2, 1 / 2]), RandomLinearThresh (floats [- 1 / 2, 1 / 2])],
         rng := sconst (1 / 2)\<rparr>) 8 =
     Inr (floats [- 1 / 2, 1 / 2])"
    by (simp add: eval_defs)
  have run: "fst (RandomLinearThresh_predict exact_dot 8 2
     (example_world
        \<lparr>heap := heap example_world @
           [LinearThresh (floats [- 1 / 2, 1 / 2]), RandomLinearThresh (floats [- 1 / 2, 1 / 2])],
         rng := sconst (1 / 2)\<rparr>)) = Inr 9"
    by (simp add: eval_defs upt_rec)
  show ?thesis
    using h1 h2 h3 run linear_and_random_predict_agree [OF h1 h2 h3, of exact_dot 2]
    by (intro conjI) simp_all
qed

text \<open>
  Claim C6, as stated, fails at the lower end of the interval: when a draw of the generator
  is 0, \<^verbatim>\<open>np.random.uniform(-1, 1)\<close> returns \<open>-1\<close>, and the stored coefficient is \<open>-1\<close>,
  which is not inside the open interval. Here the generator draws 0, then 1/2.
\<close>

theorem RandomLinearThresh_init_counterexample:
  "sset (rng (example_world\<lparr>rng := 0 ## sconst (1 / 2)\<rparr>)) = {0, 1 / 2} \<and>
   get_coefficient
     (snd (RandomLinearThresh_init 2 (example_world\<lparr>rng := 0 ## sconst (1 / 2)\<rparr>)))
     (fst (RandomLinearThresh_init 2 (example_world\<lparr>rng := 0 ## sconst (1 / 2)\<rparr>))) =
     Inr [Finite (- 1), Finite 0] \<and>
   (- 1 :: real) \<notin> {- 1 <..< 1}"
  by (simp add: RandomLinearThresh_init_def np_random_uniform_def new_def py_range_def upt_rec
      get_coefficient_def deref_def)

text \<open>
  Claim C6, amended. A \<^verbatim>\<open>RandomLinearThresh\<close> constructed with dimensionality \<open>d\<close> stores
  a weight vector of exactly \<open>d\<close> entries (none when \<open>d\<close> is negative). The entries are
  sampled at construction time: entry \<open>k\<close> is \<open>2 * u - 1\<close> for the \<open>k\<close>-th draw \<open>u\<close> of the
  generator, which is \<open>-1 + (1 - (-1)) * u\<close>, and so lies in the half-open interval
  \<open>[-1, 1)\<close>. The construction consumes these \<open>d\<close> draws; \<^verbatim>\<open>predict\<close> consumes none and leaves
  the weight vector as it is.
\<close>

theorem RandomLinearThresh_init_coefficient:
  assumes "\<forall>u\<in>sset (rng w). 0 \<le> u \<and> u < 1"
    and "RandomLinearThresh_init d w = (self, w')"
  shows "\<exists>c. c = map (\<lambda>u. Finite (2 * u - 1)) (stake (nat d) (rng w)) \<and>
           deref w' self = Some (RandomLinearThresh c) \<and>
           deref w self = None \<and>
           length c = nat d \<and>
           (\<forall>x\<in>set c. \<exists>v. x = Finite v \<and> - 1 \<le> v \<and> v < 1) \<and>
           rng w' = sdrop (nat d) (rng w) \<and>
           (\<forall>X. rng (snd (RandomLinearThresh_predict dot self X w')) = rng w' \<and>
                get_coefficient (snd (RandomLinearThresh_predict dot self X w')) self = Inr c)"
proof -
  let ?c = "map (\<lambda>u. Finite (2 * u - 1)) (stake (nat d) (rng w))"
  have self: "self = length (heap w)"
    and w': "w' = w\<lparr>heap := heap w @ [RandomLinearThresh ?c], rng := sdrop (nat d) (rng w)\<rparr>"
    using assms(2) by (simp_all add: RandomLinearThresh_init_run)
  have stored: "deref w' self = Some (RandomLinearThresh ?c)"
    using self w' by (simp add: deref_def)
  have fresh: "deref w self = None"
    using self by (simp add: deref_fresh_None)
  have range: "\<forall>x\<in>set ?c. \<exists>v. x = Finite v \<and> - 1 \<le> v \<and> v < 1"
  proof
    fix x assume "x \<in> set ?c"
    then obtain u where u: "u \<in> set (stake (nat d) (rng w))" and x: "x = Finite (2 * u - 1)"
      by auto
    from u have "u \<in> sset (rng w)" using set_stake_subset [of "nat d" "rng w"] by auto
    with assms(1) have "0 \<le> u \<and> u < 1" by blast
    then have "- 1 \<le> 2 * u - 1 \<and> 2 * u - 1 < 1" by simp
    then show "\<exists>v. x = Finite v \<and> - 1 \<le> v \<and> v < 1" using x by blast
  qed
  have later: "rng (snd (RandomLinearThresh_predict dot self X w')) = rng w' \<and>
      get_coefficient (snd (RandomLinearThresh_predict dot self X w')) self = Inr ?c" for X
  proof -
    obtain zs where frame: "heap (snd (LinearThresh_predict dot self X w')) = heap w' @ zs"
      and rng: "rng (snd (LinearThresh_predict dot self X w')) = rng w'"
      using LinearThresh_predict_frame by blast
    have "deref (snd (LinearThresh_predict dot self X w')) self = Some (RandomLinearThresh ?c)"
      using frame stored by (rule deref_heap_append)
    then show ?thesis
      using rng by (simp add: predicts_same get_coefficient_def)
  qed
  show ?thesis
    using stored fresh range w' later by (intro exI [of _ ?c]) simp
qed

text \<open>
  With the draws 1/4 and 3/4 the stored vector is \<open>[-1/2, 1/2]\<close>, and the generator is left
  at its third draw.
\<close>

theorem RandomLinearThresh_init_coefficient_witness:
  "sset (rng example_world) = {1 / 4, 3 / 4, 1 / 2} \<and>
   RandomLinearThresh_init 2 example_world =
     (7, example_world
           \<lparr>heap := heap example_world @ [RandomLinearThresh (floats [- 1 / 2, 1 / 2])],
            rng := sconst (1 / 2)\<rparr>) \<and>
   (\<exists>c. c = map (\<lambda>u. Finite (2 * u - 1)) (stake (nat 2) (rng example_world)) \<and>
        deref (example_world
           \<lparr>heap := heap example_world @ [RandomLinearThresh (floats [- 1 / 2, 1 / 2])],
            rng := sconst (1 / 2)\<rparr>) 7 = Some (RandomLinearThresh c) \<and>
        deref example_world 7 = None \<and>
        length c = nat 2 \<and>
        (\<forall>x\<in>set c. \<exists>v. x = Finite v \<and> - 1 \<le> v \<and> v < 1) \<and>
        rng (example_world
           \<lparr>heap := heap example_world @ [RandomLinearThresh (floats [- 1 / 2, 1 / 2])],
            rng := sconst (1 / 2)\<rparr>) = sdrop (nat 2) (rng example_world) \<and>
        (\<forall>X. rng (snd (RandomLinearThresh_predict exact_dot 7 X
                 (example_world
                    \<lparr>heap := heap example_world @ [RandomLinearThresh (floats [- 1 / 2, 1 / 2])],
                     rng := sconst (1 / 2)\<rparr>))) =
               rng (example_world
                    \<lparr>heap := heap example_world @ [RandomLinearThresh (floats [- 1 / 2, 1 / 2])],
                     rng := sconst (1 / 2)\<rparr>) \<and>
             get_coefficient (snd (RandomLinearThresh_predict exact_dot 7 X
                 (example_world
                    \<lparr>heap := heap example_world @ [RandomLinearThresh (floats [- 1 / 2, 1 / 2])],
                     rng := sconst (1 / 2)\<rparr>))) 7 =
               Inr c)) \<and>
   map (\<lambda>u. Finite (2 * u - 1)) (stake (nat 2) (rng example_world)) = floats [- 1 / 2, 1 / 2]"
proof -
  have draws: "sset (rng example_world) = {1 / 4, 3 / 4, 1 / 2}"
    by (simp add: example_world_def)
  have h1: "\<forall>u\<in>sset (rng example_world). 0 \<le> u \<and> u < 1"
    unfolding draws by simp
  have h2: "RandomLinearThresh_init 2 example_world =
     (7, example_world
           \<lparr>heap := heap example_world @ [RandomLinearThresh (floats [- 1 / 2, 1 / 2])],
            rng := sconst (1 / 2)\<rparr>)"
    by (simp add: RandomLinearThresh_init_def np_random_uniform_def new_def example_world_def
        py_range_def upt_rec)
  have c: "map (\<lambda>u. Finite (2 * u - 1)) (stake (nat 2) (rng example_world)) =
      floats [- 1 / 2, 1 / 2]"
    by (simp add: example_world_def numeral_2_eq_2)
  show ?thesis
    using draws h2 c RandomLinearThresh_init_coefficient [OF h1 h2, of exact_dot]
    by (intro conjI) (assumption | simp)+
qed

text \<open>
  Claim C7 fails on the code. When the operator answers the breakpoint with
  \<^verbatim>\<open>quit\<close>, or the input of the debugger is at its end, \<^verbatim>\<open>RegOracle.predict\<close> raises
  \<^verbatim>\<open>BdbQuit\<close>, where the same method without the breakpoint returns the labels
  \<^verbatim>\<open>[1, 0]\<close>.
\<close>

theorem RegOracle_predict_breakpoint_quits:
  "fst (RegOracle_predict 3 2 (example_world\<lparr>stdin := [Quit]\<rparr>)) = Inl BdbQuit \<and>
   fst (RegOracle_predict 3 2 (example_world\<lparr>stdin := []\<rparr>)) = Inl BdbQuit \<and>
   observe
     (snd (RegOracle_predict_without_breakpoint 3 2 (example_world\<lparr>stdin := [Quit]\<rparr>)))
     (fst (RegOracle_predict_without_breakpoint 3 2 (example_world\<lparr>stdin := [Quit]\<rparr>))) =
     Inr (Some (PyList [1, 0])) \<and>
   observe
     (snd (RegOracle_predict_without_breakpoint 3 2 (example_world\<lparr>stdin := []\<rparr>)))
     (fst (RegOracle_predict_without_breakpoint 3 2 (example_world\<lparr>stdin := []\<rparr>))) =
     Inr (Some (PyList [1, 0]))"
  by (simp add: eval_defs observe_def upt_rec example_reg0_def example_reg1_def)

text \<open>
  When the operator resumes the program, the breakpoint changes nothing but the input it
  has read: the result, the store and the calls are those of the method without it.
\<close>

lemma RegOracle_predict_breakpoint_continue:
  assumes "deref w self = Some (RegOracle reg0 reg1)" and "deref w X = Some (DataFrame rows)"
    and "stdin w = Continue # cmds"
  shows "RegOracle_predict self X w =
     (fst (RegOracle_predict_without_breakpoint self X w),
      (snd (RegOracle_predict_without_breakpoint self X w))\<lparr>stdin := cmds\<rparr>)"
  unfolding RegOracle_predict_run [OF assms]
    RegOracle_predict_without_breakpoint_run [OF assms(1,2)]
  by (simp split: prod.splits)

text \<open>
  Claim C8. \<^verbatim>\<open>RegOracle.predict\<close> hands each row to the models as it is and lets the
  first exception through. When the loop is reached and row \<open>i\<close> is the first on which a
  model raises, \<^verbatim>\<open>predict\<close> raises that exception and returns no list; the models have
  been called on the rows before \<open>i\<close>, then \<^verbatim>\<open>b0\<close> on row \<open>i\<close>, then \<^verbatim>\<open>b1\<close> on row
  \<open>i\<close> if \<^verbatim>\<open>b0\<close> returned, and on no later row.
\<close>

theorem RegOracle_predict_first_error:
  assumes "deref w self = Some (RegOracle reg0 reg1)"
    and "deref w X = Some (DataFrame rows)"
    and "stdin w = Continue # cmds"
    and "i < length rows"
    and "\<forall>j<i. (\<exists>c. reg0 (rows ! j) = Inr c) \<and> (\<exists>c. reg1 (rows ! j) = Inr c)"
    and "reg0 (rows ! i) = Inl e \<or> (\<exists>c. reg0 (rows ! i) = Inr c) \<and> reg1 (rows ! i) = Inl e"
  shows "fst (RegOracle_predict self X w) = Inl e \<and>
         calls (snd (RegOracle_predict self X w)) =
           calls w @ concat (map (\<lambda>x. [(B0, x), (B1, x)]) (take i rows)) @
             (case reg0 (rows ! i) of
                Inl e' \<Rightarrow> [(B0, rows ! i)]
              | Inr c \<Rightarrow> [(B0, rows ! i), (B1, rows ! i)])"
proof -
  obtain ys where c: "costs_until_error reg0 reg1 rows =
      (ys, concat (map (\<lambda>x. [(B0, x), (B1, x)]) (take i rows)) @
             (case reg0 (rows ! i) of
                Inl e' \<Rightarrow> [(B0, rows ! i)]
              | Inr c \<Rightarrow> [(B0, rows ! i), (B1, rows ! i)]), Some e)"
    using costs_until_error_first [OF assms(4,5,6)]
    by (cases "costs_until_error reg0 reg1 rows") simp
  show ?thesis
    unfolding RegOracle_predict_run [OF assms(1,2,3)] c
    by (simp add: raise_or_def)
qed

theorem RegOracle_predict_first_error_witness:
  "deref example_world 3 = Some (RegOracle example_reg0 example_reg1) \<and>
   deref example_world 4 = Some (DataFrame [floats [2, 1], floats [- 1, 2], floats [1, 2]]) \<and>
   stdin example_world = Continue # [] \<and>
   (1 :: nat) < length [floats [2, 1], floats [- 1, 2], floats [1, 2]] \<and>
   example_reg0 (floats [2, 1]) = Inr (Finite 2) \<and> example_reg1 (floats [2, 1]) = Inr (Finite 1) \<and>
   example_reg0 (floats [- 1, 2]) = Inl (Exception ''negative cost'') \<and>
   fst (RegOracle_predict 3 4 example_world) = Inl (Exception ''negative cost'') \<and>
   calls (snd (RegOracle_predict 3 4 example_world)) =
     [(B0, floats [2, 1]), (B1, floats [2, 1]), (B0, floats [- 1, 2])]"
proof -
  have h1: "deref example_world 3 = Some (RegOracle example_reg0 example_reg1)"
    by (simp add: eval_defs)
  have h2: "deref example_world 4 = Some (DataFrame [floats [2, 1], floats [- 1, 2], floats [1, 2]])"
    by (simp add: eval_defs)
  have h3: "stdin example_world = Continue # []"
    by (simp add: example_world_def)
  have h4: "(1 :: nat) < length [floats [2, 1], floats [- 1, 2], floats [1, 2]]" by simp
  have r0: "example_reg0 (floats [2, 1]) = Inr (Finite 2)" and r1: "example_reg1 (floats [2, 1]) = Inr (Finite 1)"
    and r2: "example_reg0 (floats [- 1, 2]) = Inl (Exception ''negative cost'')"
    by (simp_all add: example_reg0_def example_reg1_def)
  have h5: "\<forall>j<1. (\<exists>c. example_reg0 ([floats [2, 1], floats [- 1, 2], floats [1, 2]] ! j) = Inr c) \<and>
      (\<exists>c. example_reg1 ([floats [2, 1], floats [- 1, 2], floats [1, 2]] ! j) = Inr c)"
    using r0 r1 by simp
  have h6: "example_reg0 ([floats [2, 1], floats [- 1, 2], floats [1, 2]] ! 1) = Inl (Exception ''negative cost'') \<or>
      (\<exists>c. example_reg0 ([floats [2, 1], floats [- 1, 2], floats [1, 2]] ! 1) = Inr c) \<and>
      example_reg1 ([floats [2, 1], floats [- 1, 2], floats [1, 2]] ! 1) = Inl (Exception ''negative cost'')"
    using r2 by simp
  have calls0: "calls example_world = []"
    by (simp add: example_world_def)
  show ?thesis
    using h1 h2 h3 r0 r1 r2 calls0 RegOracle_predict_first_error [OF h1 h2 h3 h4 h5 h6]
    by (intro conjI) simp_all
qed

text \<open>
  Claim C9. A call of \<^verbatim>\<open>predict\<close>, on any of the three classes and whatever its outcome,
  leaves every object that was in the store before the call as it was, the predictor and
  the data frame among them: the call only adds the list it builds. In particular the
  attribute \<^verbatim>\<open>coefficient\<close> of a linear predictor is after the call what it was before.
\<close>

theorem predict_leaves_store_unchanged:
  assumes "deref w r = Some v"
  shows "deref (snd (RegOracle_predict self X w)) r = Some v \<and>
         deref (snd (RandomLinearThresh_predict dot self X w)) r = Some v \<and>
         deref (snd (LinearThresh_predict dot self X w)) r = Some v \<and>
         get_coefficient (snd (RandomLinearThresh_predict dot self X w)) r = get_coefficient w r \<and>
         get_coefficient (snd (LinearThresh_predict dot self X w)) r = get_coefficient w r"
proof -
  obtain zs where "heap (snd (RegOracle_predict self X w)) = heap w @ zs"
    using RegOracle_predict_frame by blast
  then have reg: "deref (snd (RegOracle_predict self X w)) r = Some v"
    using assms by (rule deref_heap_append)
  obtain zs' where "heap (snd (LinearThresh_predict dot self X w)) = heap w @ zs'"
    using LinearThresh_predict_frame by blast
  then have lin: "deref (snd (LinearThresh_predict dot self X w)) r = Some v"
    using assms by (rule deref_heap_append)
  show ?thesis
    using reg lin assms by (simp add: predicts_same get_coefficient_def)
qed

theorem predict_leaves_store_unchanged_witness:
  "deref example_world 0 = Some (LinearThresh (floats [1, - 1])) \<and>
   deref (snd (RegOracle_predict 3 2 example_world)) 0 = Some (LinearThresh (floats [1, - 1])) \<and>
   deref (snd (RandomLinearThresh_predict exact_dot 1 2 example_world)) 0 = Some (LinearThresh (floats [1, - 1])) \<and>
   deref (snd (LinearThresh_predict exact_dot 0 2 example_world)) 0 = Some (LinearThresh (floats [1, - 1])) \<and>
   get_coefficient (snd (LinearThresh_predict exact_dot 0 2 example_world)) 0 = Inr (floats [1, - 1]) \<and>
   deref example_world 2 = Some (DataFrame [floats [2, 1], floats [1, 2]]) \<and>
   deref (snd (LinearThresh_predict exact_dot 0 2 example_world)) 2 = Some (DataFrame [floats [2, 1], floats [1, 2]])"
proof -
  have h1: "deref example_world 0 = Some (LinearThresh (floats [1, - 1]))"
    by (simp add: eval_defs)
  have h2: "deref example_world 2 = Some (DataFrame [floats [2, 1], floats [1, 2]])"
    by (simp add: eval_defs)
  have c: "get_coefficient example_world 0 = Inr (floats [1, - 1])"
    by (simp add: eval_defs)
  show ?thesis
    using h1 h2 c predict_leaves_store_unchanged [OF h1, of 3 2] predict_leaves_store_unchanged [OF h1, of 1 2]
      predict_leaves_store_unchanged [OF h1, of 0 2] predict_leaves_store_unchanged [OF h2, of 0 2]
    by (intro conjI) simp_all
qed

text \<open>
  Claim C10. On a data frame with no rows, \<^verbatim>\<open>predict\<close> of \<^verbatim>\<open>LinearThresh\<close> and of
  \<^verbatim>\<open>RandomLinearThresh\<close> raises nothing and returns a new, empty list: the store after the
  call is the store before it with that list added, at a reference that was not allocated
  before.
\<close>

theorem linear_predict_empty_dataset:
  assumes "get_coefficient w self = Inr beta"
    and "deref w X = Some (DataFrame [])"
  shows "LinearThresh_predict dot self X w =
           (Inr (length (heap w)), w\<lparr>heap := heap w @ [PyList []]\<rparr>) \<and>
         RandomLinearThresh_predict dot self X w =
           (Inr (length (heap w)), w\<lparr>heap := heap w @ [PyList []]\<rparr>) \<and>
         deref w (length (heap w)) = None"
  using assms
  by (simp add: predicts_same LinearThresh_predict_run raise_or_def deref_fresh_None)

theorem linear_predict_empty_dataset_witness:
  "get_coefficient example_world 0 = Inr (floats [1, - 1]) \<and>
   get_coefficient example_world 1 = Inr (floats [1, - 1]) \<and>
   deref example_world 5 = Some (DataFrame []) \<and>
   LinearThresh_predict exact_dot 0 5 example_world =
     (Inr 7, example_world\<lparr>heap := heap example_world @ [PyList []]\<rparr>) \<and>
   RandomLinearThresh_predict exact_dot 1 5 example_world =
     (Inr 7, example_world\<lparr>heap := heap example_world @ [PyList []]\<rparr>) \<and>
   deref example_world 7 = None"
proof -
  have h1: "get_coefficient example_world 0 = Inr (floats [1, - 1])"
    by (simp add: eval_defs)
  have h1': "get_coefficient example_world 1 = Inr (floats [1, - 1])"
    by (simp add: eval_defs)
  have h2: "deref example_world 5 = Some (DataFrame [])"
    by (simp add: eval_defs)
  have len: "length (heap example_world) = 7"
    by (simp add: example_world_def)
  show ?thesis
    using h1 h1' h2 linear_predict_empty_dataset [OF h1 h2]
      linear_predict_empty_dataset [OF h1' h2]
    unfolding len by (intro conjI) simp_all
qed

end
